theory Spec2Isabelle
  imports Main
begin

section \<open>The persisted record (ai.model.js)\<close>

text \<open>
  One document of the collection holds the prompt and one embedded sub-document per model.
  The schema declares the five fields \<^verbatim>\<open>gemini_response\<close> ... \<^verbatim>\<open>llama_response\<close>; the
  code always reaches them through the computed name \<^verbatim>\<open>`${model}_response`\<close>, so the five
  fields are one map from the model name to the sub-document. Times are milliseconds as
  integers; \<^verbatim>\<open>new Date()\<close> and \<^verbatim>\<open>Date.now()\<close> are the parameter \<open>now\<close> of the operation.
  Optional schema paths are options. The floating-point paths (\<^verbatim>\<open>settings.temperature\<close>,
  \<^verbatim>\<open>totalCost\<close>) and the request metadata (\<^verbatim>\<open>ipAddress\<close>, \<^verbatim>\<open>userAgent\<close>, \<^verbatim>\<open>createdBy\<close>)
  are read by no operation below and are left out, as are the timestamps \<^verbatim>\<open>createdAt\<close> and
  \<^verbatim>\<open>updatedAt\<close> of the document, which the library maintains by itself, and the \<^verbatim>\<open>trim\<close>
  normalisation of texts. Failures of the database itself are not modelled.

  The schema declares neither \<^verbatim>\<open>selectedModel\<close> nor \<^verbatim>\<open>previousResponseId\<close>, and it is strict
  (the default): what the constructor or an assignment on a document gives to an undeclared
  path is not stored by \<^verbatim>\<open>save()\<close>. Only the update through the driver of the collection,
  which bypasses the schema, writes \<^verbatim>\<open>selectedModel\<close>; the record has that path, and no
  \<^verbatim>\<open>previousResponseId\<close>.
\<close>

datatype status = Pending | Success | Error

datatype overall_status = Processing | Completed | Partial | Failed

record token_usage =
  t_prompt :: nat
  t_completion :: nat
  t_total :: nat

record model_response =
  model :: string
  response :: "string option"
  status :: status
  errorMessage :: "string option"
  tokens :: token_usage
  responseTime :: int
  isEdited :: bool
  createdAt :: int

record settings =
  maxTokens :: "nat option"
  enabledModels :: "string list"
  previousResponseId :: "nat option"

record ai_response =
  prompt :: string
  userId :: nat
  projectId :: "nat option"
  responses :: "string \<rightharpoonup> model_response"
  totalModels :: nat
  completedModels :: nat
  failedModels :: nat
  settings :: settings
  overallStatus :: overall_status
  startTime :: int
  endTime :: "int option"
  totalDuration :: int
  totalTokensUsed :: nat
  selectedModel :: "string option"
  updatedBy :: "nat option"

text \<open>The collection: the document stored under each \<^verbatim>\<open>_id\<close>.\<close>

type_synonym db = "nat \<rightharpoonup> ai_response"

text \<open>
  The answers other than success: the status code with its \<^verbatim>\<open>message\<close>, and for 500 also
  the \<^verbatim>\<open>error\<close> text of the caught exception.
\<close>

datatype http_error =
  BadRequest string
  | NotFound string
  | InternalServerError string string

text \<open>The list that every operation iterates over.\<close>

definition models :: "string list" where
  "models = [''gemini'', ''openai'', ''deepseek'', ''microsoft'', ''llama'']"

definition zero_tokens :: token_usage where
  "zero_tokens = \<lparr>t_prompt = 0, t_completion = 0, t_total = 0\<rparr>"

text \<open>JavaScript truthiness of an optional string: \<^verbatim>\<open>undefined\<close> and \<^verbatim>\<open>''\<close> are falsy.\<close>

definition truthy :: "string option \<Rightarrow> bool" where
  "truthy s = (case s of None \<Rightarrow> False | Some t \<Rightarrow> t \<noteq> [])"

subsection \<open>The pre-save middleware\<close>

text \<open>
  One step of the \<^verbatim>\<open>modelFields.forEach\<close> of the middleware, on the accumulators
  \<open>(completed, failed, totalTokens)\<close>.
\<close>

definition tally ::
  "(string \<rightharpoonup> model_response) \<Rightarrow> string \<Rightarrow> nat \<times> nat \<times> nat \<Rightarrow> nat \<times> nat \<times> nat" where
  "tally rs m acc =
     (case acc of (completed, failed, totalTokens) \<Rightarrow>
        (case rs m of
           None \<Rightarrow> acc
         | Some r \<Rightarrow>
             if status r = Success then (completed + 1, failed, totalTokens + t_total (tokens r))
             else if status r = Error then (completed, failed + 1, totalTokens)
             else acc))"

definition pre_save :: "int \<Rightarrow> ai_response \<Rightarrow> ai_response" where
  "pre_save now d =
     (case fold (tally (responses d)) models (0, 0, 0) of (completed, failed, totalTokens) \<Rightarrow>
        let d1 = d\<lparr>completedModels := completed, failedModels := failed,
                    totalTokensUsed := totalTokens\<rparr>
        in if completed = totalModels d1 then
             d1\<lparr>overallStatus := Completed, endTime := Some now,
                totalDuration := now - startTime d1\<rparr>
           else if (completed > 0 \<or> failed > 0) \<and> completed + failed = totalModels d1 then
             d1\<lparr>overallStatus := (if completed > 0 then Partial else Failed),
                endTime := Some now, totalDuration := now - startTime d1\<rparr>
           else d1)"

text \<open>
  \<^verbatim>\<open>document.save()\<close> of the document with \<^verbatim>\<open>_id\<close> \<open>i\<close>: the middleware runs, then the
  document replaces the stored one.
\<close>

definition save :: "int \<Rightarrow> nat \<Rightarrow> ai_response \<Rightarrow> db \<Rightarrow> ai_response \<times> db" where
  "save now i d store = (let d' = pre_save now d in (d', store(i \<mapsto> d')))"

text \<open>\<^verbatim>\<open>AIResponse.findOne({ _id: id, userId })\<close>.\<close>

definition findOne :: "db \<Rightarrow> nat \<Rightarrow> nat \<Rightarrow> ai_response option" where
  "findOne store i uid =
     (case store i of
        None \<Rightarrow> None
      | Some d \<Rightarrow> if userId d = uid then Some d else None)"

section \<open>The provider registry and the provider caller (ai.service.js)\<close>

record provider =
  name :: string
  apiModel :: string
  apiKey :: "string option"
  enabled :: bool

text \<open>
  \<^verbatim>\<open>this.providers\<close> is an object literal; its keys are kept in insertion order, which
  \<^verbatim>\<open>Object.entries\<close> follows.
\<close>

record ai_service =
  testMode :: bool
  providers :: "(string \<times> provider) list"

record environment =
  AI_TEST_MODE :: "string option"
  NODE_ENV :: "string option"
  OPENROUTER_API_KEY :: "string option"
  GEMINI_API_KEY :: "string option"
  DEEPSEEK_API_KEY :: "string option"
  MICROSOFT_API_KEY :: "string option"
  LLAMA_API_KEY :: "string option"
  OPENAI_API_KEY :: "string option"

text \<open>\<^verbatim>\<open>a || b\<close> on optional strings.\<close>

definition js_or :: "string option \<Rightarrow> string option \<Rightarrow> string option" where
  "js_or a b = (if truthy a then a else b)"

definition mk_provider :: "bool \<Rightarrow> string \<Rightarrow> string \<Rightarrow> string option \<Rightarrow> provider" where
  "mk_provider tm nm am key = \<lparr>name = nm, apiModel = am, apiKey = key, enabled = (truthy key \<or> tm)\<rparr>"

definition AIService :: "environment \<Rightarrow> ai_service" where
  "AIService env =
     (let tm = (AI_TEST_MODE env = Some ''true'' \<or> NODE_ENV env = Some ''development'')
      in \<lparr>testMode = tm,
          providers =
            [(''gemini'', mk_provider tm ''Gemini'' ''google/gemini-2.0-flash-exp:free''
                (js_or (OPENROUTER_API_KEY env) (GEMINI_API_KEY env))),
             (''deepseek'', mk_provider tm ''DeepSeek'' ''tngtech/deepseek-r1t2-chimera:free''
                (js_or (OPENROUTER_API_KEY env) (DEEPSEEK_API_KEY env))),
             (''microsoft'', mk_provider tm ''Microsoft MAI'' ''microsoft/mai-ds-r1:free''
                (js_or (OPENROUTER_API_KEY env) (MICROSOFT_API_KEY env))),
             (''llama'', mk_provider tm ''Llama'' ''meta-llama/llama-4-maverick:free''
                (js_or (OPENROUTER_API_KEY env) (LLAMA_API_KEY env))),
             (''openai'', mk_provider tm ''OpenAI'' ''openai/gpt-oss-20b:free''
                (js_or (OPENROUTER_API_KEY env) (OPENAI_API_KEY env)))]\<rparr>)"

text \<open>The keys of \<^verbatim>\<open>getEnabledProviders()\<close>, which is all its callers read.\<close>

definition getEnabledProviders :: "ai_service \<Rightarrow> string list" where
  "getEnabledProviders svc = map fst (filter (\<lambda>(key, p). enabled p) (providers svc))"

text \<open>\<^verbatim>\<open>this.providers[model]?.enabled\<close>.\<close>

definition provider_enabled :: "ai_service \<Rightarrow> string \<Rightarrow> bool" where
  "provider_enabled svc m = (case map_of (providers svc) m of None \<Rightarrow> False | Some p \<Rightarrow> enabled p)"

subsection \<open>What a call meets outside the process\<close>

record usage =
  prompt_tokens :: "nat option"
  completion_tokens :: "nat option"
  total_tokens :: "nat option"

text \<open>
  The body of a 2xx answer: \<^verbatim>\<open>choices[0].message.content\<close> and \<^verbatim>\<open>usage\<close>, each possibly
  missing.
\<close>

record payload =
  content :: "string option"
  usage :: "usage option"

text \<open>
  The body of a failed answer, \<^verbatim>\<open>error.response.data\<close>: its \<^verbatim>\<open>error.message\<close>, its
  \<^verbatim>\<open>message\<close> and its \<^verbatim>\<open>JSON.stringify\<close> text.
\<close>

record error_body =
  error_message :: "string option"
  body_message :: "string option"
  json :: string

text \<open>
  The error that \<^verbatim>\<open>axios.post\<close> rejects with (network error, timeout, non-2xx status): its
  generic \<^verbatim>\<open>message\<close>, and \<^verbatim>\<open>response.data\<close> when the upstream answered with a truthy body.
\<close>

record upstream_error =
  message :: string
  response_data :: "error_body option"

datatype upstream_outcome = Responded payload | Rejected upstream_error

datatype role = User | Assistant

record request =
  req_model :: string
  messages :: "(role \<times> string) list"
  max_tokens :: nat

text \<open>
  The environment of one call: the clock at its start and at its end, whether the look-up
  of the earlier turn throws, what the upstream does with a request, and the draws of
  \<^verbatim>\<open>Math.random\<close> in mock mode (the floating-point products of the mock token counts are
  draws too).
\<close>

record call_env =
  t_start :: int
  t_end :: int
  lookup_throws :: bool
  upstream :: "request \<Rightarrow> upstream_outcome"
  mock_index :: nat
  mock_tokens :: nat
  mock_prompt_tokens :: nat
  mock_completion_tokens :: nat
  mock_time :: int

text \<open>
  What the service returns for one model: the object literal of \<^verbatim>\<open>callOpenRouter\<close>, where
  \<^verbatim>\<open>createdAt\<close> is missing from the mock and from the fall-back objects.
\<close>

record call_result =
  r_model :: string
  r_response :: "string option"
  r_status :: status
  r_errorMessage :: "string option"
  r_tokens :: "token_usage option"
  r_responseTime :: "int option"
  r_createdAt :: "int option"

definition or0 :: "nat option \<Rightarrow> nat" where
  "or0 n = (case n of None \<Rightarrow> 0 | Some k \<Rightarrow> k)"

definition generateMockResponse :: "call_env \<Rightarrow> string \<Rightarrow> string \<Rightarrow> call_result" where
  "generateMockResponse env modelName prmpt =
     (let texts =
            [''This is a mock response from '' @ modelName @ '' for the prompt: '' @ [CHR 0x22] @ take 50 prmpt
               @ ''...'' @ [CHR 0x22],
             modelName @ '' would typically analyze this prompt and provide a detailed response based on its training data.'',
             ''Mock '' @ modelName @ '' response: The prompt discusses interesting topics that would require thoughtful analysis.'',
             modelName @ '' simulation: This is a test response generated for development purposes.'']
      in \<lparr>r_model = modelName,
          r_response = Some (texts ! (mock_index env mod 4)),
          r_status = Success,
          r_errorMessage = None,
          r_tokens = Some \<lparr>t_prompt = mock_prompt_tokens env, t_completion = mock_completion_tokens env,
                            t_total = mock_tokens env\<rparr>,
          r_responseTime = Some (mock_time env),
          r_createdAt = None\<rparr>)"

text \<open>The \<^verbatim>\<open>catch\<close> block of \<^verbatim>\<open>callOpenRouter\<close>.\<close>

definition error_detail :: "upstream_error \<Rightarrow> string" where
  "error_detail e =
     (case response_data e of
        None \<Rightarrow> message e
      | Some body \<Rightarrow>
          if truthy (error_message body) then the (error_message body)
          else if truthy (body_message body) then the (body_message body)
          else json body)"

definition error_result :: "call_env \<Rightarrow> string \<Rightarrow> upstream_error \<Rightarrow> call_result" where
  "error_result env modelName e =
     \<lparr>r_model = modelName,
      r_response = Some [],
      r_status = Error,
      r_errorMessage = Some (modelName @ '' Error: '' @ error_detail e),
      r_tokens = Some zero_tokens,
      r_responseTime = Some (t_end env - t_start env),
      r_createdAt = Some (t_end env)\<rparr>"

text \<open>An error thrown inside the \<^verbatim>\<open>try\<close> by the code itself carries a message only.\<close>

definition thrown :: "string \<Rightarrow> upstream_error" where
  "thrown msg = \<lparr>message = msg, response_data = None\<rparr>"

text \<open>
  Reading \<^verbatim>\<open>provider.enabled\<close> of a missing provider throws a TypeError inside the
  \<^verbatim>\<open>try\<close>; the engine words its message.
\<close>

definition type_error_message :: string where
  "type_error_message = ''Cannot read properties of undefined''"

text \<open>The conversation history of \<^verbatim>\<open>callOpenRouter\<close>, with its own \<^verbatim>\<open>try\<close>/\<^verbatim>\<open>catch\<close>.\<close>

definition history :: "call_env \<Rightarrow> db \<Rightarrow> string \<Rightarrow> settings \<Rightarrow> (role \<times> string) list" where
  "history env store modelName sett =
     (case previousResponseId sett of
        None \<Rightarrow> []
      | Some pid \<Rightarrow>
          if lookup_throws env then []
          else (case store pid of
                  None \<Rightarrow> []
                | Some prevResponse \<Rightarrow>
                    (User, prompt prevResponse) #
                    (case responses prevResponse modelName of
                       None \<Rightarrow> []
                     | Some r \<Rightarrow>
                         if truthy (response r) then [(Assistant, the (response r))] else [])))"

text \<open>The body of the POST; \<^verbatim>\<open>settings.maxTokens || 2000\<close>.\<close>

definition request_data :: "string \<Rightarrow> (role \<times> string) list \<Rightarrow> settings \<Rightarrow> request" where
  "request_data apiMdl msgs sett =
     \<lparr>req_model = apiMdl, messages = msgs,
      max_tokens = (case maxTokens sett of None \<Rightarrow> 2000 | Some n \<Rightarrow> if n = 0 then 2000 else n)\<rparr>"

definition callOpenRouter ::
  "ai_service \<Rightarrow> call_env \<Rightarrow> db \<Rightarrow> string \<Rightarrow> string \<Rightarrow> string \<Rightarrow> settings \<Rightarrow> call_result" where
  "callOpenRouter svc env store modelName apiMdl prmpt sett =
     (case map_of (providers svc) modelName of
        None \<Rightarrow> error_result env modelName (thrown type_error_message)
      | Some p \<Rightarrow>
          if \<not> enabled p then error_result env modelName (thrown (modelName @ '' is not enabled''))
          else if testMode svc \<and> \<not> truthy (apiKey p) then generateMockResponse env modelName prmpt
          else if \<not> truthy (apiKey p) then
            error_result env modelName
              (thrown (modelName @ '' API key not configured - Please set OPENROUTER_API_KEY in environment variables''))
          else
            let msgs = history env store modelName sett @ [(User, prmpt)];
                requestData = request_data apiMdl msgs sett
            in (case upstream env requestData of
                  Rejected e \<Rightarrow> error_result env modelName e
                | Responded body \<Rightarrow>
                    \<lparr>r_model = modelName,
                     r_response = Some (if truthy (content body) then the (content body) else []),
                     r_status = Success,
                     r_errorMessage = None,
                     r_tokens = Some (case usage body of
                                        None \<Rightarrow> zero_tokens
                                      | Some u \<Rightarrow> \<lparr>t_prompt = or0 (prompt_tokens u),
                                                   t_completion = or0 (completion_tokens u),
                                                   t_total = or0 (total_tokens u)\<rparr>),
                     r_responseTime = Some (t_end env - t_start env),
                     r_createdAt = Some (t_end env)\<rparr>))"

text \<open>
  \<^verbatim>\<open>generateSingleModelResponse\<close> throws for an unknown or a disabled model; the thrown
  message is the left summand.
\<close>

definition generateSingleModelResponse ::
  "ai_service \<Rightarrow> call_env \<Rightarrow> db \<Rightarrow> string \<Rightarrow> string \<Rightarrow> settings \<Rightarrow> string + call_result" where
  "generateSingleModelResponse svc env store modelName prmpt sett =
     (case map_of (providers svc) modelName of
        None \<Rightarrow> Inl (''Unknown model: '' @ modelName)
      | Some p \<Rightarrow>
          if \<not> enabled p then Inl (''Model '' @ modelName @ '' is not enabled or configured'')
          else Inr (callOpenRouter svc env store modelName (apiModel p) prmpt sett))"

text \<open>
  \<^verbatim>\<open>generateMultiModelResponse\<close>: the \<^verbatim>\<open>switch\<close> sends each of the five names to
  \<^verbatim>\<open>callOpenRouter\<close> with that provider's \<^verbatim>\<open>apiModel\<close>. The \<^verbatim>\<open>responses\<close> object is the
  list of its entries in insertion order. Each call has its own environment.
\<close>

definition multi_call ::
  "ai_service \<Rightarrow> (string \<Rightarrow> call_env) \<Rightarrow> db \<Rightarrow> string \<Rightarrow> settings \<Rightarrow> string \<Rightarrow> call_result" where
  "multi_call svc envs store prmpt sett m =
     (if m \<in> set models then
        (case map_of (providers svc) m of
           None \<Rightarrow> \<lparr>r_model = m, r_response = Some [], r_status = Error,
                      r_errorMessage = Some type_error_message, r_tokens = Some zero_tokens,
                      r_responseTime = Some 0, r_createdAt = None\<rparr>
         | Some p \<Rightarrow> callOpenRouter svc (envs m) store m (apiModel p) prmpt sett)
      else \<lparr>r_model = m, r_response = Some [], r_status = Error,
             r_errorMessage = Some ''Unknown model'', r_tokens = Some zero_tokens,
             r_responseTime = Some 0, r_createdAt = None\<rparr>)"

definition generateMultiModelResponse ::
  "ai_service \<Rightarrow> (string \<Rightarrow> call_env) \<Rightarrow> db \<Rightarrow> string \<Rightarrow> settings
     \<Rightarrow> string + (string \<times> call_result) list" where
  "generateMultiModelResponse svc envs store prmpt sett =
     (let availableModels = filter (provider_enabled svc) (enabledModels sett)
      in if availableModels = [] then Inl ''No AI models are configured and enabled''
         else Inr (map (\<lambda>m. (m, multi_call svc envs store prmpt sett m)) availableModels))"

section \<open>The controllers\<close>

text \<open>
  An object assigned to one of the five fields becomes a sub-document: the paths it lacks
  take the defaults of \<^verbatim>\<open>aiModelResponseSchema\<close>.
\<close>

definition cast_response :: "int \<Rightarrow> call_result \<Rightarrow> model_response" where
  "cast_response now r =
     \<lparr>model = r_model r,
      response = r_response r,
      status = r_status r,
      errorMessage = r_errorMessage r,
      tokens = (case r_tokens r of None \<Rightarrow> zero_tokens | Some t \<Rightarrow> t),
      responseTime = (case r_responseTime r of None \<Rightarrow> 0 | Some t \<Rightarrow> t),
      isEdited = False,
      createdAt = (case r_createdAt r of None \<Rightarrow> now | Some t \<Rightarrow> t)\<rparr>"

text \<open>The placeholder \<^verbatim>\<open>{ model, status: 'pending', response: '', createdAt: new Date() }\<close>.\<close>

definition pending_response :: "int \<Rightarrow> string \<Rightarrow> model_response" where
  "pending_response now m =
     cast_response now \<lparr>r_model = m, r_response = Some [], r_status = Pending, r_errorMessage = None,
                         r_tokens = None, r_responseTime = None, r_createdAt = Some now\<rparr>"

subsection \<open>generateAIResponse\<close>

record submit_request =
  q_user :: nat
  q_prompt :: string
  q_projectId :: "nat option"
  q_previousResponseId :: "nat option"
  q_maxTokens :: "nat option"
  q_enabledModels :: "string list option"

definition is_space :: "char \<Rightarrow> bool" where
  "is_space c = (c \<in> set [CHR 0x20, CHR 0x09, CHR 0x0A, CHR 0x0B, CHR 0x0C, CHR 0x0D])"

definition trim :: "string \<Rightarrow> string" where
  "trim s = rev (dropWhile is_space (rev (dropWhile is_space s)))"

text \<open>
  The rules of \<^verbatim>\<open>generateAIResponseValidation\<close> on the paths modelled here (the prompt is
  trimmed for the check only; the controller goes on with the payload as sent).
\<close>

definition generateAIResponseValidation :: "submit_request \<Rightarrow> bool" where
  "generateAIResponseValidation q =
     (1 \<le> length (trim (q_prompt q)) \<and> length (trim (q_prompt q)) \<le> 10000
      \<and> (case q_maxTokens q of None \<Rightarrow> True | Some n \<Rightarrow> 1 \<le> n \<and> n \<le> 8000)
      \<and> (case q_enabledModels q of
            None \<Rightarrow> True
          | Some ms \<Rightarrow> 1 \<le> length ms \<and> list_all (\<lambda>m. m \<in> set models) ms))"

text \<open>\<^verbatim>\<open>modelsToUse\<close>: the requested models (or the default list) that are enabled.\<close>

definition models_to_use :: "ai_service \<Rightarrow> submit_request \<Rightarrow> string list" where
  "models_to_use svc q =
     (let enabledMs = (case q_enabledModels q of
                         None \<Rightarrow> [''gemini'', ''openai'', ''deepseek'', ''microsoft'', ''llama'']
                       | Some ms \<Rightarrow> ms);
          availableModelNames = getEnabledProviders svc
      in filter (\<lambda>m. m \<in> set availableModelNames) enabledMs)"

text \<open>
  \<^verbatim>\<open>new AIResponse({ ... })\<close>, the remaining paths at their schema defaults. The object
  also names \<^verbatim>\<open>previousResponseId\<close> and \<^verbatim>\<open>selectedModel\<close>, which the strict schema drops, so
  the new document has no selection. \<open>new_project\<close> is the identifier of the project
  created when the payload names none.
\<close>

definition new_AIResponse ::
  "int \<Rightarrow> nat \<Rightarrow> submit_request \<Rightarrow> string list \<Rightarrow> ai_response" where
  "new_AIResponse now new_project q modelsToUse =
     \<lparr>prompt = q_prompt q, userId = q_user q,
      projectId = Some (case q_projectId q of None \<Rightarrow> new_project | Some p \<Rightarrow> p),
      responses = Map.empty,
      totalModels = length modelsToUse, completedModels = 0, failedModels = 0,
      settings = \<lparr>maxTokens = q_maxTokens q, enabledModels = modelsToUse,
                  previousResponseId = None\<rparr>,
      overallStatus = Processing,
      startTime = now, endTime = None, totalDuration = 0, totalTokensUsed = 0,
      selectedModel = None,
      updatedBy = None\<rparr>"

text \<open>
  \<^verbatim>\<open>generateAIResponse\<close> saves the document, answers 201 with it and then starts one
  background task for each entry of \<^verbatim>\<open>modelsToUse\<close>; the result carries the document of the
  answer and that list. \<open>new_id\<close> is the \<^verbatim>\<open>_id\<close> of the new document.
\<close>

definition generateAIResponse ::
  "ai_service \<Rightarrow> int \<Rightarrow> nat \<Rightarrow> nat \<Rightarrow> submit_request \<Rightarrow> db
     \<Rightarrow> (http_error + ai_response \<times> string list) \<times> db" where
  "generateAIResponse svc now new_id new_project q store =
     (if \<not> generateAIResponseValidation q then (Inl (BadRequest ''Validation error''), store)
      else
        let modelsToUse = models_to_use svc q
        in if length modelsToUse = 0 then
             (Inl (BadRequest ''No AI models are configured and available''), store)
           else
             let aiResponse = new_AIResponse now new_project q modelsToUse;
                 initialised =
                   fold (\<lambda>m d. d\<lparr>responses := (responses d)(m \<mapsto> pending_response now m)\<rparr>)
                     modelsToUse aiResponse
             in (case save now new_id initialised store of
                   (saved, store') \<Rightarrow> (Inr (saved, modelsToUse), store')))"

text \<open>
  The settings that the controller hands to the background tasks,
  \<^verbatim>\<open>{ ...settings, previousResponseId: previousResponseId || null }\<close>; this is where the
  \<^verbatim>\<open>previousResponseId\<close> of the payload goes. (A call for one model does not read
  \<^verbatim>\<open>enabledModels\<close>.)
\<close>

definition task_settings :: "submit_request \<Rightarrow> settings" where
  "task_settings q =
     \<lparr>maxTokens = q_maxTokens q,
      enabledModels = (case q_enabledModels q of None \<Rightarrow> [] | Some ms \<Rightarrow> ms),
      previousResponseId = q_previousResponseId q\<rparr>"

subsection \<open>generateIndependentResponses\<close>

text \<open>
  The update document of one background task:
  \<^verbatim>\<open>{ [`${model}_response`]: { ...result, createdAt: result.createdAt || new Date() }, updatedAt: new Date() }\<close>,
  or the error object of the \<^verbatim>\<open>catch\<close> branch when the service threw. The \<^verbatim>\<open>updatedAt\<close> of
  the update is one of the timestamps of the library, which sets its own at every update.
\<close>

record patch =
  u_model :: string
  u_value :: call_result

definition completion_patch :: "int \<Rightarrow> string \<Rightarrow> string + call_result \<Rightarrow> patch" where
  "completion_patch now m outcome =
     (case outcome of
        Inr result \<Rightarrow>
          \<lparr>u_model = m,
           u_value = result\<lparr>r_createdAt := (case r_createdAt result of None \<Rightarrow> Some now | Some t \<Rightarrow> Some t)\<rparr>\<rparr>
      | Inl msg \<Rightarrow>
          \<lparr>u_model = m,
           u_value = \<lparr>r_model = m, r_response = Some [], r_status = Error,
                      r_errorMessage = Some (if msg \<noteq> [] then msg else ''Failed to generate response''),
                      r_tokens = Some zero_tokens, r_responseTime = Some 0, r_createdAt = Some now\<rparr>\<rparr>)"

text \<open>
  \<^verbatim>\<open>AIResponse.findByIdAndUpdate(responseId, update)\<close> sets the paths of the update on the
  stored document, if there is one. It is a query: the \<^verbatim>\<open>save\<close> middleware is registered
  for \<^verbatim>\<open>document.save()\<close> only and does not run here.
\<close>

definition findByIdAndUpdate :: "int \<Rightarrow> nat \<Rightarrow> patch \<Rightarrow> db \<Rightarrow> db" where
  "findByIdAndUpdate now i p store =
     (case store i of
        None \<Rightarrow> store
      | Some d \<Rightarrow>
          store(i \<mapsto> d\<lparr>responses := (responses d)(u_model p \<mapsto> cast_response now (u_value p))\<rparr>))"

text \<open>
  One background task to its end: the call, then the patch. \<open>now\<close> is the clock when the
  call has returned.
\<close>

definition complete_one ::
  "ai_service \<Rightarrow> call_env \<Rightarrow> nat \<Rightarrow> string \<Rightarrow> settings \<Rightarrow> string \<Rightarrow> db \<Rightarrow> db" where
  "complete_one svc env responseId prmpt sett m store =
     findByIdAndUpdate (t_end env) responseId
       (completion_patch (t_end env) m (generateSingleModelResponse svc env store m prmpt sett)) store"

text \<open>
  The tasks of one submission finishing in the order \<open>order\<close> (any interleaving of the
  models).
\<close>

definition generateIndependentResponses ::
  "ai_service \<Rightarrow> (string \<Rightarrow> call_env) \<Rightarrow> nat \<Rightarrow> string \<Rightarrow> settings \<Rightarrow> string list \<Rightarrow> db \<Rightarrow> db" where
  "generateIndependentResponses svc envs responseId prmpt sett order store =
     fold (\<lambda>m. complete_one svc (envs m) responseId prmpt sett m) order store"

subsection \<open>retryFailedResponses\<close>

definition failed_models :: "ai_response \<Rightarrow> string list" where
  "failed_models aiResponse =
     filter (\<lambda>m. case responses aiResponse m of None \<Rightarrow> False | Some r \<Rightarrow> status r = Error) models"

definition retryFailedResponses ::
  "ai_service \<Rightarrow> (string \<Rightarrow> call_env) \<Rightarrow> int \<Rightarrow> nat \<Rightarrow> nat \<Rightarrow> db \<Rightarrow> (http_error + ai_response) \<times> db" where
  "retryFailedResponses svc envs now i uid store =
     (case findOne store i uid of
        None \<Rightarrow> (Inl (NotFound ''AI response not found''), store)
      | Some aiResponse \<Rightarrow>
          let failedModels = failed_models aiResponse
          in if length failedModels = 0 then
               (Inl (BadRequest ''No failed responses to retry''), store)
             else
               (case generateMultiModelResponse svc envs store (prompt aiResponse)
                       ((settings aiResponse)\<lparr>enabledModels := failedModels\<rparr>) of
                  Inl msg \<Rightarrow> (Inl (InternalServerError ''Failed to retry responses'' msg), store)
                | Inr rs \<Rightarrow>
                    let updated =
                          fold (\<lambda>(key, value) d.
                                  if key \<in> set failedModels
                                  then d\<lparr>responses := (responses d)(key \<mapsto> cast_response now value)\<rparr>
                                  else d)
                            rs aiResponse
                    in (case save now i (updated\<lparr>updatedBy := Some uid\<rparr>) store of
                          (saved, store') \<Rightarrow> (Inr saved, store'))))"

subsection \<open>selectPreferredResponse\<close>

text \<open>
  The source holds two versions of this controller. Both take the request through
  \<^verbatim>\<open>selectPreferredResponseValidation\<close>, whose definition is not part of the source: it is the
  parameter \<open>valid\<close>. \<^verbatim>\<open>$unset\<close> removes the fields of all other models.
\<close>

text \<open>
  The guard \<^verbatim>\<open>!doc[field] || !doc[field].response\<close> of both versions.
\<close>

definition no_response :: "ai_response \<Rightarrow> string \<Rightarrow> bool" where
  "no_response d mdl = (case responses d mdl of None \<Rightarrow> True | Some r \<Rightarrow> \<not> truthy (response r))"

definition unset_others :: "string \<Rightarrow> (string \<rightharpoonup> model_response) \<Rightarrow> (string \<rightharpoonup> model_response)" where
  "unset_others mdl rs = fold (\<lambda>m f. if m \<noteq> mdl then f(m := None) else f) models rs"

text \<open>
  The version of \<^verbatim>\<open>src/api/v1/ai/ai.controller.js\<close>. After the update of the document it
  awaits \<^verbatim>\<open>Project.updateOne\<close> inside the same \<^verbatim>\<open>try\<close>; \<open>project_error\<close> is the message of
  the exception of that call (or of the import of the project model before it), if it throws.
  An update that matches no project throws nothing.
\<close>

definition selectPreferredResponse ::
  "(string \<Rightarrow> bool) \<Rightarrow> string option \<Rightarrow> nat \<Rightarrow> nat \<Rightarrow> string \<Rightarrow> db
     \<Rightarrow> (http_error + ai_response) \<times> db" where
  "selectPreferredResponse valid project_error i uid mdl store =
     (if \<not> valid mdl then (Inl (BadRequest ''Validation error''), store)
      else
        (case findOne store i uid of
           None \<Rightarrow> (Inl (NotFound ''AI response not found''), store)
         | Some checkResponse \<Rightarrow>
             if no_response checkResponse mdl
             then (Inl (BadRequest ''Selected model response does not exist''), store)
             else
               let aiResponse =
                     checkResponse\<lparr>responses := unset_others mdl (responses checkResponse),
                                    settings := (settings checkResponse)\<lparr>enabledModels := [mdl]\<rparr>,
                                    totalModels := 1, completedModels := 1, failedModels := 0,
                                    overallStatus := Completed, updatedBy := Some uid\<rparr>;
                   store' = store(i \<mapsto> aiResponse)
               in (case project_error of
                     Some msg \<Rightarrow>
                       if projectId aiResponse \<noteq> None
                       then (Inl (InternalServerError ''Failed to select preferred response'' msg), store')
                       else (Inr aiResponse, store')
                   | None \<Rightarrow> (Inr aiResponse, store'))))"

text \<open>\<^verbatim>\<open>models.filter(m => aiResponse[`${m}_response`])\<close>.\<close>

definition existing_models :: "ai_response \<Rightarrow> string list" where
  "existing_models d = filter (\<lambda>m. responses d m \<noteq> None) models"

text \<open>
  The second version (with the undo branch for the empty model name, and the update through
  the driver of the collection). The undo branch assigns \<^verbatim>\<open>aiResponse.selectedModel = null\<close>
  before \<^verbatim>\<open>save()\<close>; the path is not declared, the assignment is not stored, and the
  document keeps the \<^verbatim>\<open>selectedModel\<close> that the driver wrote.
\<close>

definition selectPreferredResponse2 ::
  "(string \<Rightarrow> bool) \<Rightarrow> int \<Rightarrow> nat \<Rightarrow> nat \<Rightarrow> string \<Rightarrow> db \<Rightarrow> (http_error + ai_response) \<times> db" where
  "selectPreferredResponse2 valid now i uid mdl store =
     (if \<not> valid mdl then (Inl (BadRequest ''Validation error''), store)
      else if mdl = [] then
        (case findOne store i uid of
           None \<Rightarrow> (Inl (NotFound ''AI response not found''), store)
         | Some aiResponse \<Rightarrow>
             let existingModels = existing_models aiResponse;
                 cleared =
                   aiResponse\<lparr>updatedBy := Some uid,
                               settings := (settings aiResponse)
                                 \<lparr>enabledModels := (if length existingModels > 0 then existingModels
                                                     else models)\<rparr>\<rparr>
             in (case save now i cleared store of (saved, store') \<Rightarrow> (Inr saved, store')))
      else
        (case findOne store i uid of
           None \<Rightarrow> (Inl (NotFound ''AI response not found''), store)
         | Some aiResponse \<Rightarrow>
             if no_response aiResponse mdl
             then (Inl (BadRequest ''Selected model response does not exist''), store)
             else
               let updatedDoc =
                     aiResponse\<lparr>selectedModel := Some mdl, overallStatus := Completed,
                                 updatedBy := Some uid,
                                 settings := (settings aiResponse)\<lparr>enabledModels := [mdl]\<rparr>,
                                 responses := unset_others mdl (responses aiResponse)\<rparr>
               in (Inr updatedDoc, store(i \<mapsto> updatedDoc))))"

subsection \<open>Manual updates of one model response\<close>

text \<open>
  The body of \<^verbatim>\<open>PUT /:id/model\<close>. The controller builds the object
  \<^verbatim>\<open>{ response, status, errorMessage, tokens, responseTime }\<close> with every key present, a
  missing value being \<^verbatim>\<open>undefined\<close>.
\<close>

record update_data =
  d_model :: string
  d_response :: "string option"
  d_status :: status
  d_errorMessage :: "string option"
  d_tokens :: "token_usage option"
  d_responseTime :: "int option"

definition updateModelResponseValidation :: "update_data \<Rightarrow> bool" where
  "updateModelResponseValidation u =
     (d_model u \<in> set models \<and> (case d_responseTime u of None \<Rightarrow> True | Some t \<Rightarrow> 0 \<le> t))"

text \<open>
  The instance method \<^verbatim>\<open>updateModelResponse\<close>. On an existing sub-document
  \<^verbatim>\<open>Object.assign\<close> sets all five paths, an \<^verbatim>\<open>undefined\<close> clearing the path (a cleared
  number reads as its default). Without a sub-document the object is assigned as it is; it
  has no \<^verbatim>\<open>model\<close>, which the schema requires, so \<^verbatim>\<open>save()\<close> rejects with a ValidationError
  and nothing is stored.
\<close>

definition updateModelResponse_method ::
  "int \<Rightarrow> nat \<Rightarrow> ai_response \<Rightarrow> update_data \<Rightarrow> db \<Rightarrow> (ai_response \<times> db) option" where
  "updateModelResponse_method now i d u store =
     (case responses d (d_model u) of
        Some r \<Rightarrow>
          Some (save now i
                  (d\<lparr>responses := (responses d)(d_model u \<mapsto>
                        r\<lparr>response := d_response u, status := d_status u,
                          errorMessage := d_errorMessage u,
                          tokens := (case d_tokens u of None \<Rightarrow> zero_tokens | Some t \<Rightarrow> t),
                          responseTime := (case d_responseTime u of None \<Rightarrow> 0 | Some t \<Rightarrow> t)\<rparr>)\<rparr>)
                  store)
      | None \<Rightarrow> None)"

definition updateModelResponse ::
  "int \<Rightarrow> nat \<Rightarrow> nat \<Rightarrow> update_data \<Rightarrow> db \<Rightarrow> (http_error + ai_response) \<times> db" where
  "updateModelResponse now i uid u store =
     (if \<not> updateModelResponseValidation u then (Inl (BadRequest ''Validation error''), store)
      else
        (case findOne store i uid of
           None \<Rightarrow> (Inl (NotFound ''AI response not found''), store)
         | Some aiResponse \<Rightarrow>
             (case updateModelResponse_method now i (aiResponse\<lparr>updatedBy := Some uid\<rparr>) u store of
                None \<Rightarrow> (Inl (BadRequest ''Validation error''), store)
              | Some (saved, store') \<Rightarrow> (Inr saved, store'))))"

text \<open>\<^verbatim>\<open>updateSingleModelResponse\<close> of the model controller: the edit of a response text.\<close>

definition updateSingleModelResponse ::
  "int \<Rightarrow> nat \<Rightarrow> nat \<Rightarrow> string \<Rightarrow> string option \<Rightarrow> db \<Rightarrow> (http_error + ai_response) \<times> db" where
  "updateSingleModelResponse now responseId uid mdl resp store =
     (if mdl \<notin> set models then (Inl (BadRequest ''Invalid model specified''), store)
      else if \<not> truthy resp then (Inl (BadRequest ''Response content is required''), store)
      else
        (case findOne store responseId uid of
           None \<Rightarrow> (Inl (NotFound ''AI response not found''), store)
         | Some aiResponse \<Rightarrow>
             (case responses aiResponse mdl of
                Some r \<Rightarrow>
                  (case save now responseId
                          (aiResponse\<lparr>responses := (responses aiResponse)(mdl \<mapsto>
                                         r\<lparr>response := resp, isEdited := True\<rparr>),
                                      updatedBy := Some uid\<rparr>) store of
                     (saved, store') \<Rightarrow> (Inr saved, store'))
              | None \<Rightarrow> (Inl (NotFound ''Model response not found''), store))))"

text \<open>\<^verbatim>\<open>deleteSingleModelResponse\<close> of the model controller.\<close>

definition deleteSingleModelResponse ::
  "int \<Rightarrow> nat \<Rightarrow> nat \<Rightarrow> string \<Rightarrow> db \<Rightarrow> (http_error + ai_response) \<times> db" where
  "deleteSingleModelResponse now responseId uid mdl store =
     (if mdl \<notin> set models then (Inl (BadRequest ''Invalid model specified''), store)
      else
        (case findOne store responseId uid of
           None \<Rightarrow> (Inl (NotFound ''AI response not found''), store)
         | Some aiResponse \<Rightarrow>
             (case save now responseId
                     (aiResponse\<lparr>responses := (responses aiResponse)(mdl := None),
                                 updatedBy := Some uid\<rparr>) store of
                (saved, store') \<Rightarrow> (Inr saved, store'))))"

section \<open>The invariant of the specification\<close>

text \<open>
  In the words of the specification: status \<open>error\<close> implies an empty response text and a
  set error message; status \<open>success\<close> implies no error message. A store satisfies it
  when every sub-document of every document does.
\<close>

definition provider_result_invariant :: "model_response \<Rightarrow> bool" where
  "provider_result_invariant r =
     ((status r = Error \<longrightarrow> \<not> truthy (response r) \<and> truthy (errorMessage r))
      \<and> (status r = Success \<longrightarrow> errorMessage r = None))"

definition store_invariant :: "db \<Rightarrow> bool" where
  "store_invariant store =
     (\<forall>i d m r. store i = Some d \<longrightarrow> responses d m = Some r \<longrightarrow> provider_result_invariant r)"

text \<open>
  An operation that takes the first store to the second writes valid results only, when
  every sub-document of the second store that the first does not hold unchanged satisfies
  the invariant.
\<close>

definition written_results_valid :: "db \<Rightarrow> db \<Rightarrow> bool" where
  "written_results_valid store store' =
     (\<forall>j m r. (case store' j of None \<Rightarrow> None | Some d \<Rightarrow> responses d m) = Some r \<longrightarrow>
        (case store j of None \<Rightarrow> None | Some d \<Rightarrow> responses d m) = Some r
        \<or> provider_result_invariant r)"

section \<open>Concrete inputs\<close>

text \<open>
  A process started with the gateway key only: every provider is enabled and has a key.
\<close>

definition env_key :: environment where
  "env_key = \<lparr>AI_TEST_MODE = None, NODE_ENV = None, OPENROUTER_API_KEY = Some ''key'',
               GEMINI_API_KEY = None, DEEPSEEK_API_KEY = None, MICROSOFT_API_KEY = None,
               LLAMA_API_KEY = None, OPENAI_API_KEY = None\<rparr>"

definition empty_store :: db where
  "empty_store = Map.empty"

definition accept_all :: "string \<Rightarrow> bool" where
  "accept_all mdl = True"

definition stored_response :: "db \<Rightarrow> nat \<Rightarrow> string \<Rightarrow> model_response option" where
  "stored_response store i m = (case store i of None \<Rightarrow> None | Some d \<Rightarrow> responses d m)"

definition no_settings :: settings where
  "no_settings = \<lparr>maxTokens = None, enabledModels = [], previousResponseId = None\<rparr>"

text \<open>User 7 asks one model, and asks the same model twice in one list.\<close>

definition q_gemini :: submit_request where
  "q_gemini = \<lparr>q_user = 7, q_prompt = ''What is AI?'', q_projectId = Some 3,
                q_previousResponseId = None, q_maxTokens = None,
                q_enabledModels = Some [''gemini'']\<rparr>"

definition q_twice :: submit_request where
  "q_twice = \<lparr>q_user = 7, q_prompt = ''What is AI?'', q_projectId = Some 3,
               q_previousResponseId = None, q_maxTokens = None,
               q_enabledModels = Some [''gemini'', ''gemini'']\<rparr>"

text \<open>An upstream that answers with 42 tokens, and one that answers 429 with a detail.\<close>

definition answer42 :: "request \<Rightarrow> upstream_outcome" where
  "answer42 rq =
     Responded \<lparr>content = Some ''hello'',
                usage = Some \<lparr>prompt_tokens = Some 12, completion_tokens = Some 30,
                              total_tokens = Some 42\<rparr>\<rparr>"

definition rate_limited :: upstream_error where
  "rate_limited =
     \<lparr>message = ''Request failed with status code 429'',
      response_data = Some \<lparr>error_message = Some ''Rate limit exceeded'', body_message = None,
                             json = ''{}''\<rparr>\<rparr>"

definition reject_429 :: "request \<Rightarrow> upstream_outcome" where
  "reject_429 rq = Rejected rate_limited"

definition env_answer42 :: call_env where
  "env_answer42 =
     \<lparr>t_start = 100, t_end = 150, lookup_throws = False, upstream = answer42,
      mock_index = 0, mock_tokens = 50, mock_prompt_tokens = 35, mock_completion_tokens = 15,
      mock_time = 500\<rparr>"

definition env_429 :: call_env where
  "env_429 =
     \<lparr>t_start = 100, t_end = 150, lookup_throws = False, upstream = reject_429,
      mock_index = 0, mock_tokens = 50, mock_prompt_tokens = 35, mock_completion_tokens = 15,
      mock_time = 500\<rparr>"

definition envs_answer42 :: "string \<Rightarrow> call_env" where
  "envs_answer42 m = env_answer42"

text \<open>
  The submission of \<open>q_gemini\<close> at time 100 as document 1, and the store after its only
  background task has finished with the answer of 42 tokens.
\<close>

definition store_created :: db where
  "store_created = snd (generateAIResponse (AIService env_key) 100 1 9 q_gemini empty_store)"

definition store_answered :: db where
  "store_answered =
     generateIndependentResponses (AIService env_key) envs_answer42 1 ''What is AI?'' no_settings
       [''gemini''] store_created"

definition store_twice :: db where
  "store_twice = snd (generateAIResponse (AIService env_key) 100 1 9 q_twice empty_store)"

text \<open>The same submission when the upstream answers 200 without a text, and when it fails.\<close>

definition answer_blank :: "request \<Rightarrow> upstream_outcome" where
  "answer_blank rq = Responded \<lparr>content = None, usage = None\<rparr>"

definition env_blank :: call_env where
  "env_blank =
     \<lparr>t_start = 100, t_end = 150, lookup_throws = False, upstream = answer_blank,
      mock_index = 0, mock_tokens = 50, mock_prompt_tokens = 35, mock_completion_tokens = 15,
      mock_time = 500\<rparr>"

definition envs_blank :: "string \<Rightarrow> call_env" where
  "envs_blank m = env_blank"

definition envs_429 :: "string \<Rightarrow> call_env" where
  "envs_429 m = env_429"

definition store_blank :: db where
  "store_blank =
     generateIndependentResponses (AIService env_key) envs_blank 1 ''What is AI?'' no_settings
       [''gemini''] store_created"

definition store_failed :: db where
  "store_failed =
     generateIndependentResponses (AIService env_key) envs_429 1 ''What is AI?'' no_settings
       [''gemini''] store_created"

text \<open>User 7 edits the text of the failed response.\<close>

definition store_edited :: db where
  "store_edited = snd (updateSingleModelResponse 200 1 7 ''gemini'' (Some ''fixed by hand'') store_failed)"

text \<open>
  User 7 marks the answered response as failed through the manual update, keeping a text
  and giving no error message.
\<close>

definition mark_failed :: update_data where
  "mark_failed = \<lparr>d_model = ''gemini'', d_response = Some ''hello'', d_status = Error,
                   d_errorMessage = None, d_tokens = None, d_responseTime = None\<rparr>"

definition store_marked :: db where
  "store_marked = snd (updateModelResponse 200 1 7 mark_failed store_answered)"

text \<open>User 7 edits the text of the answered response at time 200, and again at time 300.\<close>

definition store_edit1 :: db where
  "store_edit1 = snd (updateSingleModelResponse 200 1 7 ''gemini'' (Some ''edited'') store_answered)"

definition store_edit2 :: db where
  "store_edit2 = snd (updateSingleModelResponse 300 1 7 ''gemini'' (Some ''edited again'') store_edit1)"

definition stored_enabledModels :: "db \<Rightarrow> nat \<Rightarrow> string list option" where
  "stored_enabledModels store i = (case store i of None \<Rightarrow> None | Some d \<Rightarrow> Some (enabledModels (settings d)))"

text \<open>
  Two models are asked and both fail. Later the process runs with the key of one of them
  only, and user 7 retries.
\<close>

definition q_two :: submit_request where
  "q_two = \<lparr>q_user = 7, q_prompt = ''What is AI?'', q_projectId = Some 3,
             q_previousResponseId = None, q_maxTokens = None,
             q_enabledModels = Some [''gemini'', ''openai'']\<rparr>"

definition env_openai_only :: environment where
  "env_openai_only = \<lparr>AI_TEST_MODE = None, NODE_ENV = None, OPENROUTER_API_KEY = None,
               GEMINI_API_KEY = None, DEEPSEEK_API_KEY = None, MICROSOFT_API_KEY = None,
               LLAMA_API_KEY = None, OPENAI_API_KEY = Some ''key''\<rparr>"

definition store_two :: db where
  "store_two = snd (generateAIResponse (AIService env_key) 100 1 9 q_two empty_store)"

definition store_both_failed :: db where
  "store_both_failed =
     generateIndependentResponses (AIService env_key) envs_429 1 ''What is AI?'' no_settings
       [''openai'', ''gemini''] store_two"

definition store_retried :: db where
  "store_retried = snd (retryFailedResponses (AIService env_openai_only) envs_answer42 300 1 7 store_both_failed)"

text \<open>
  The two models both answer instead. User 7 selects \<open>gemini\<close>, in the one version and in
  the other; after the second, the user deletes the response that is left and then clears
  the selection.
\<close>

definition store_two_answered :: db where
  "store_two_answered =
     generateIndependentResponses (AIService env_key) envs_answer42 1 ''What is AI?'' no_settings
       [''openai'', ''gemini''] store_two"

definition store_selected1 :: db where
  "store_selected1 = snd (selectPreferredResponse accept_all None 1 7 ''gemini'' store_two_answered)"

definition store_selected :: db where
  "store_selected = snd (selectPreferredResponse2 accept_all 200 1 7 ''gemini'' store_two_answered)"

definition store_emptied :: db where
  "store_emptied = snd (deleteSingleModelResponse 250 1 7 ''gemini'' store_selected)"

definition store_cleared :: db where
  "store_cleared = snd (selectPreferredResponse2 accept_all 300 1 7 [] store_emptied)"

text \<open>User 7 retries the failed response whose text had been edited by hand.\<close>

definition store_fixed :: db where
  "store_fixed = snd (retryFailedResponses (AIService env_key) envs_answer42 300 1 7 store_edited)"

text \<open>
  A follow-up call that names document 1 as the earlier turn, in an environment where the
  look-up of that document throws.
\<close>

definition env_lookup_throws :: call_env where
  "env_lookup_throws =
     \<lparr>t_start = 100, t_end = 150, lookup_throws = True, upstream = answer42,
      mock_index = 0, mock_tokens = 50, mock_prompt_tokens = 35, mock_completion_tokens = 15,
      mock_time = 500\<rparr>"

definition follow_up :: settings where
  "follow_up = \<lparr>maxTokens = None, enabledModels = [], previousResponseId = Some 1\<rparr>"

section \<open>Properties\<close>

lemmas eval_defs =
  generateIndependentResponses_def complete_one_def findByIdAndUpdate_def completion_patch_def
  generateSingleModelResponse_def callOpenRouter_def AIService_def mk_provider_def js_or_def
  truthy_def generateAIResponse_def generateAIResponseValidation_def models_to_use_def
  new_AIResponse_def trim_def is_space_def models_def getEnabledProviders_def save_def
  pre_save_def tally_def pending_response_def cast_response_def request_data_def history_def
  or0_def zero_tokens_def error_result_def error_detail_def thrown_def stored_response_def
  existing_models_def findOne_def no_response_def unset_others_def failed_models_def
  generateMultiModelResponse_def multi_call_def provider_enabled_def retryFailedResponses_def
  selectPreferredResponse_def selectPreferredResponse2_def updateSingleModelResponse_def
  deleteSingleModelResponse_def updateModelResponse_def updateModelResponse_method_def
  updateModelResponseValidation_def Let_def

lemmas input_defs =
  env_key_def empty_store_def accept_all_def no_settings_def q_gemini_def q_twice_def
  answer42_def rate_limited_def reject_429_def env_answer42_def env_429_def envs_answer42_def
  store_created_def store_answered_def store_twice_def answer_blank_def env_blank_def
  envs_blank_def envs_429_def store_blank_def store_failed_def store_edited_def store_edit1_def
  store_edit2_def stored_enabledModels_def store_two_answered_def store_selected1_def
  store_selected_def store_emptied_def store_cleared_def store_fixed_def q_two_def
  env_openai_only_def store_two_def store_both_failed_def store_retried_def
  env_lookup_throws_def follow_up_def mark_failed_def store_marked_def

subsection \<open>The recomputation of the middleware\<close>

lemma tally_pending:
  "(\<And>r. rs m = Some r \<Longrightarrow> status r = Pending) \<Longrightarrow> tally rs m acc = acc"
  by (cases acc) (auto simp: tally_def split: option.splits)

lemma fold_tally_pending:
  "(\<And>m r. rs m = Some r \<Longrightarrow> status r = Pending) \<Longrightarrow> fold (tally rs) ms acc = acc"
  by (induction ms arbitrary: acc) (simp_all add: tally_pending)

lemma pre_save_pending:
  assumes "\<And>m r. responses d m = Some r \<Longrightarrow> status r = Pending" and "totalModels d \<noteq> 0"
  shows "pre_save now d = d\<lparr>completedModels := 0, failedModels := 0, totalTokensUsed := 0\<rparr>"
  using assms(2) by (simp add: pre_save_def fold_tally_pending [OF assms(1)])

lemma pre_save_responses: "responses (pre_save now d) = responses d"
  by (simp add: pre_save_def Let_def split: prod.splits)

lemma pre_save_frame:
  "settings (pre_save now d) = settings d" "selectedModel (pre_save now d) = selectedModel d"
  "totalModels (pre_save now d) = totalModels d" "startTime (pre_save now d) = startTime d"
  "prompt (pre_save now d) = prompt d" "updatedBy (pre_save now d) = updatedBy d"
  by (simp_all add: pre_save_def Let_def split: prod.splits)

text \<open>
  What a \<^verbatim>\<open>save()\<close> recomputes: the counters are the numbers of sub-documents in status
  \<open>success\<close> and \<open>error\<close> among the five fields, and the tokens are those of the successes.
\<close>

lemma fold_tally_counts:
  "fold (tally rs) ms (c, f, t) =
     (c + length (filter (\<lambda>m. \<exists>r. rs m = Some r \<and> status r = Success) ms),
      f + length (filter (\<lambda>m. \<exists>r. rs m = Some r \<and> status r = Error) ms),
      t + sum_list (map (\<lambda>m. case rs m of
                                  None \<Rightarrow> 0
                                | Some r \<Rightarrow> if status r = Success then t_total (tokens r) else 0) ms))"
  by (induction ms arbitrary: c f t) (auto simp: tally_def split: option.splits)

lemma pre_save_counts:
  "completedModels (pre_save now d)
     = length (filter (\<lambda>m. \<exists>r. responses d m = Some r \<and> status r = Success) models)
   \<and> failedModels (pre_save now d)
     = length (filter (\<lambda>m. \<exists>r. responses d m = Some r \<and> status r = Error) models)
   \<and> totalTokensUsed (pre_save now d)
     = sum_list (map (\<lambda>m. case responses d m of
                                None \<Rightarrow> 0
                              | Some r \<Rightarrow> if status r = Success then t_total (tokens r) else 0) models)"
  by (simp add: pre_save_def fold_tally_counts Let_def)

lemma fold_map_upd:
  "fold (\<lambda>m rs. rs(m \<mapsto> f m)) ms rs0 x = (if x \<in> set ms then Some (f x) else rs0 x)"
  by (induction ms arbitrary: rs0) auto

lemma fold_map_upd_fun:
  "fold (\<lambda>m rs. rs(m \<mapsto> f m)) ms rs0 = (\<lambda>x. if x \<in> set ms then Some (f x) else rs0 x)"
  by (rule ext) (rule fold_map_upd)

lemma fold_pending_frame:
  "fold (\<lambda>m d. d\<lparr>responses := (responses d)(m \<mapsto> f m)\<rparr>) ms d0
     = d0\<lparr>responses := fold (\<lambda>m rs. rs(m \<mapsto> f m)) ms (responses d0)\<rparr>"
  by (induction ms arbitrary: d0) simp_all

subsection \<open>Submission\<close>

text \<open>
  Whatever the request, a valid submission with at least one usable model stores and
  answers a document whose sub-documents are the pending placeholders of the models of
  \<open>modelsToUse\<close>, with \<open>totalModels\<close> the length of that list and the status
  \<open>processing\<close>; no background task has run yet.
\<close>

lemma generateAIResponse_pending:
  assumes "generateAIResponseValidation q" and "models_to_use svc q \<noteq> []"
  shows "\<exists>d. generateAIResponse svc now new_id new_project q store
              = (Inr (d, models_to_use svc q), store(new_id \<mapsto> d))
           \<and> totalModels d = length (models_to_use svc q)
           \<and> overallStatus d = Processing
           \<and> completedModels d = 0 \<and> failedModels d = 0 \<and> totalTokensUsed d = 0
           \<and> responses d = (\<lambda>m. if m \<in> set (models_to_use svc q)
                                  then Some (pending_response now m) else None)"
proof -
  let ?ms = "models_to_use svc q"
  let ?d0 = "new_AIResponse now new_project q ?ms"
  let ?d1 = "fold (\<lambda>m d. d\<lparr>responses := (responses d)(m \<mapsto> pending_response now m)\<rparr>) ?ms ?d0"
  let ?g = "\<lambda>m. if m \<in> set ?ms then Some (pending_response now m) else None"
  have d1: "?d1 = ?d0\<lparr>responses := ?g\<rparr>"
    unfolding fold_pending_frame by (simp add: fold_map_upd_fun new_AIResponse_def)
  have r1: "responses ?d1 = ?g"
    by (subst d1) simp
  have pend: "\<And>m r. responses ?d1 m = Some r \<Longrightarrow> status r = Pending"
    unfolding r1 by (auto simp: pending_response_def cast_response_def split: if_splits)
  have nz: "totalModels ?d1 \<noteq> 0"
    using assms(2) by (subst d1) (simp add: new_AIResponse_def)
  have ps: "pre_save now ?d1 = ?d1\<lparr>completedModels := 0, failedModels := 0, totalTokensUsed := 0\<rparr>"
    by (rule pre_save_pending [OF pend nz])
  have flds: "totalModels ?d1 = length ?ms" "overallStatus ?d1 = Processing"
    by (subst d1, simp add: new_AIResponse_def)+
  have "generateAIResponse svc now new_id new_project q store
          = (Inr (pre_save now ?d1, ?ms), store(new_id \<mapsto> pre_save now ?d1))"
    using assms by (simp add: generateAIResponse_def Let_def save_def ps)
  then show ?thesis
    by (simp add: ps flds r1)
qed

text \<open>
  With a list free of duplicates the number of sub-documents is \<open>totalModels\<close>.
\<close>

lemma generateAIResponse_distinct:
  assumes "generateAIResponseValidation q" and "models_to_use svc q \<noteq> []"
    and "distinct (models_to_use svc q)"
  shows "\<exists>d. fst (generateAIResponse svc now new_id new_project q store) = Inr (d, models_to_use svc q)
           \<and> card (dom (responses d)) = totalModels d"
proof -
  obtain d where d: "generateAIResponse svc now new_id new_project q store
              = (Inr (d, models_to_use svc q), store(new_id \<mapsto> d))"
      "totalModels d = length (models_to_use svc q)"
      "responses d = (\<lambda>m. if m \<in> set (models_to_use svc q)
                            then Some (pending_response now m) else None)"
    using generateAIResponse_pending [OF assms(1,2), of now new_id new_project store] by blast
  have "dom (responses d) = set (models_to_use svc q)"
    by (auto simp: d(3) split: if_splits)
  then show ?thesis
    using d assms(3) by (simp add: distinct_card)
qed

text \<open>
  C4, at the request \<open>q_twice\<close> that names \<open>gemini\<close> twice (the validation admits it): the
  answer is the stored document, its status is \<open>processing\<close> and its only sub-document is
  pending, but \<open>totalModels\<close> is 2 for one provider and one sub-document.
\<close>

theorem submit_counts_duplicates:
  "generateAIResponseValidation q_twice
   \<and> fst (generateAIResponse (AIService env_key) 100 1 9 q_twice empty_store)
       = Inr (the (store_twice 1), [''gemini'', ''gemini''])
   \<and> map_option existing_models (store_twice 1) = Some [''gemini'']
   \<and> map_option status (stored_response store_twice 1 ''gemini'') = Some Pending
   \<and> map_option overallStatus (store_twice 1) = Some Processing
   \<and> map_option totalModels (store_twice 1) = Some 2"
  by (simp add: eval_defs input_defs)

subsection \<open>Background completion\<close>

text \<open>
  The patch of a background task changes one sub-document; the counters,
  the status and the end time of the document stay as they were.
\<close>

lemma findByIdAndUpdate_frame:
  assumes "store i = Some d"
  shows "\<exists>d'. findByIdAndUpdate now i p store i = Some d'
           \<and> responses d' = (responses d)(u_model p \<mapsto> cast_response now (u_value p))
           \<and> completedModels d' = completedModels d \<and> failedModels d' = failedModels d
           \<and> totalTokensUsed d' = totalTokensUsed d \<and> overallStatus d' = overallStatus d
           \<and> totalModels d' = totalModels d
           \<and> endTime d' = endTime d \<and> totalDuration d' = totalDuration d"
  using assms by (simp add: findByIdAndUpdate_def)

text \<open>
  C1, at the submission \<open>q_gemini\<close> whose only provider then answers with 42 tokens: the
  sub-document is stored with status \<open>success\<close> and 42 tokens, and the document still
  has \<open>completedModels = 0\<close>, \<open>failedModels = 0\<close>, \<open>totalTokensUsed = 0\<close> and the status
  \<open>processing\<close>, with \<open>totalModels = 1\<close>.
\<close>

theorem completion_patch_leaves_counters:
  "map_option status (stored_response store_answered 1 ''gemini'') = Some Success
   \<and> map_option tokens (stored_response store_answered 1 ''gemini'')
       = Some \<lparr>t_prompt = 12, t_completion = 30, t_total = 42\<rparr>
   \<and> map_option totalModels (store_answered 1) = Some 1
   \<and> map_option completedModels (store_answered 1) = Some 0
   \<and> map_option failedModels (store_answered 1) = Some 0
   \<and> map_option totalTokensUsed (store_answered 1) = Some 0
   \<and> map_option overallStatus (store_answered 1) = Some Processing"
  by (simp add: eval_defs input_defs)

text \<open>
  The sub-document that a completion patch stores does not depend on the clock at which the
  patch is applied: its \<open>createdAt\<close> is fixed when the patch is built.
\<close>

lemma cast_completion_patch:
  "cast_response now2 (u_value (completion_patch now m outcome)) =
   cast_response now1 (u_value (completion_patch now m outcome))"
  by (cases outcome) (simp_all add: completion_patch_def cast_response_def split: option.splits)

text \<open>
  C10: a completion patch applied a second time (at any later clock) to the store it has
  already been applied to leaves that store as it is. This holds for the patch of every
  outcome of the call, and for a document that no longer exists.
\<close>

theorem completion_patch_idempotent:
  "findByIdAndUpdate now2 i (completion_patch now m outcome)
     (findByIdAndUpdate now1 i (completion_patch now m outcome) store)
   = findByIdAndUpdate now1 i (completion_patch now m outcome) store"
proof (cases "store i")
  case None
  then show ?thesis by (simp add: findByIdAndUpdate_def)
next
  case (Some d)
  then show ?thesis
    using cast_completion_patch [of now2 now m outcome now1]
    by (simp add: findByIdAndUpdate_def)
qed

subsection \<open>The provider caller\<close>

text \<open>
  C5: for an enabled provider with a key, when the upstream rejects the request (network
  error, timeout, non-2xx), the call returns a result and throws nothing. The result has
  status \<open>error\<close>, an empty text, zero tokens, the time elapsed from the start of the call
  and the message \<open><model> Error: <detail>\<close>, where the detail is the error message of the
  upstream body, else the message of the body, else the body as JSON, and the generic
  message of the transport only when the upstream sent no body.
\<close>

theorem upstream_failure_is_error_result:
  assumes "map_of (providers svc) m = Some p"
    and "enabled p"
    and "truthy (apiKey p)"
    and "upstream env (request_data (apiModel p) (history env store m sett @ [(User, prmpt)]) sett)
           = Rejected e"
  shows "generateSingleModelResponse svc env store m prmpt sett =
           Inr \<lparr>r_model = m, r_response = Some [], r_status = Error,
                r_errorMessage = Some (m @ '' Error: '' @
                   (case response_data e of
                      None \<Rightarrow> message e
                    | Some body \<Rightarrow>
                        if truthy (error_message body) then the (error_message body)
                        else if truthy (body_message body) then the (body_message body)
                        else json body)),
                r_tokens = Some \<lparr>t_prompt = 0, t_completion = 0, t_total = 0\<rparr>,
                r_responseTime = Some (t_end env - t_start env),
                r_createdAt = Some (t_end env)\<rparr>"
  using assms
  by (simp add: generateSingleModelResponse_def callOpenRouter_def error_result_def error_detail_def
      zero_tokens_def Let_def)

theorem upstream_failure_is_error_result_witness:
  "map_of (providers (AIService env_key)) ''gemini''
     = Some (mk_provider False ''Gemini'' ''google/gemini-2.0-flash-exp:free'' (Some ''key''))
   \<and> enabled (mk_provider False ''Gemini'' ''google/gemini-2.0-flash-exp:free'' (Some ''key''))
   \<and> truthy (apiKey (mk_provider False ''Gemini'' ''google/gemini-2.0-flash-exp:free'' (Some ''key'')))
   \<and> upstream env_429
        (request_data ''google/gemini-2.0-flash-exp:free''
           (history env_429 empty_store ''gemini'' no_settings @ [(User, ''What is AI?'')]) no_settings)
       = Rejected rate_limited
   \<and> generateSingleModelResponse (AIService env_key) env_429 empty_store ''gemini'' ''What is AI?''
        no_settings
       = Inr \<lparr>r_model = ''gemini'', r_response = Some [], r_status = Error,
              r_errorMessage = Some ''gemini Error: Rate limit exceeded'',
              r_tokens = Some \<lparr>t_prompt = 0, t_completion = 0, t_total = 0\<rparr>,
              r_responseTime = Some 50, r_createdAt = Some 150\<rparr>"
  using upstream_failure_is_error_result [of "AIService env_key" "''gemini''"
      "mk_provider False ''Gemini'' ''google/gemini-2.0-flash-exp:free'' (Some ''key'')"
      env_429 empty_store no_settings "''What is AI?''" rate_limited]
  by (simp add: AIService_def env_key_def mk_provider_def js_or_def truthy_def env_429_def
      reject_429_def rate_limited_def)

subsection \<open>End time and duration\<close>




subsection \<open>Selecting a preferred response\<close>

lemma unset_others_eq:
  "unset_others mdl rs = (\<lambda>m. if m \<in> set models \<and> m \<noteq> mdl then None else rs m)"
  by (auto simp: unset_others_def models_def fun_eq_iff)

lemma dom_unset_others:
  assumes "dom rs \<subseteq> set models" and "rs mdl \<noteq> None"
  shows "dom (unset_others mdl rs) = {mdl}"
proof -
  have "\<And>x y. rs x = Some y \<Longrightarrow> x \<in> set models"
    using assms(1) by auto
  then show ?thesis
    using assms(2) by (auto simp: unset_others_eq split: if_splits)
qed

text \<open>
  C2 as stated fails, in four ways. A provider that answered without a text has status
  \<open>success\<close>, and both versions refuse to select it. A failed response whose text was
  edited by hand has status \<open>error\<close>, and it is selected. After a selection on the
  document of two answered models, the version of \<^verbatim>\<open>ai.controller.js\<close> leaves no
  \<open>selectedModel\<close>, and the second version leaves \<open>totalModels = 2\<close> and
  \<open>completedModels = 0\<close> under the status \<open>completed\<close>.
\<close>

theorem select_rejects_success_without_text:
  "map_option status (stored_response store_blank 1 ''gemini'') = Some Success
   \<and> fst (selectPreferredResponse accept_all None 1 7 ''gemini'' store_blank)
       = Inl (BadRequest ''Selected model response does not exist'')
   \<and> fst (selectPreferredResponse2 accept_all 200 1 7 ''gemini'' store_blank)
       = Inl (BadRequest ''Selected model response does not exist'')
   \<and> map_option status (stored_response store_edited 1 ''gemini'') = Some Error
   \<and> fst (selectPreferredResponse accept_all None 1 7 ''gemini'' store_edited)
       = Inr (the (snd (selectPreferredResponse accept_all None 1 7 ''gemini'' store_edited) 1))
   \<and> fst (selectPreferredResponse accept_all None 1 7 ''gemini'' store_two_answered)
       = Inr (the (store_selected1 1))
   \<and> map_option selectedModel (store_selected1 1) = Some None
   \<and> fst (selectPreferredResponse2 accept_all 200 1 7 ''gemini'' store_two_answered)
       = Inr (the (store_selected 1))
   \<and> map_option selectedModel (store_selected 1) = Some (Some ''gemini'')
   \<and> map_option overallStatus (store_selected 1) = Some Completed
   \<and> map_option totalModels (store_selected 1) = Some 2
   \<and> map_option completedModels (store_selected 1) = Some 0"
  by (simp add: eval_defs input_defs)

text \<open>
  C2 as amended: for a stored document of the user (whose sub-documents are among the five
  fields) and a non-empty model name that passes the validation, the selection succeeds
  exactly when the sub-document of the model exists with a non-empty response text. Then
  the stored and answered document keeps that sub-document alone,
  \<open>settings.enabledModels\<close> is the one model and the status is \<open>completed\<close>; the version of
  \<^verbatim>\<open>ai.controller.js\<close> (when the project update does not throw) also sets
  \<open>totalModels = completedModels = 1\<close> and \<open>failedModels = 0\<close>, the second version also sets
  \<open>selectedModel\<close>. Otherwise both answer 400 and the store is unchanged. (What the first
  version leaves in \<open>selectedModel\<close> and the second in the counters is no part of this.)
\<close>

theorem selectPreferred_by_response_text:
  assumes "valid mdl" and "mdl \<noteq> []" and "findOne store i uid = Some d"
    and "dom (responses d) \<subseteq> set models"
  shows "(no_response d mdl \<longrightarrow>
            selectPreferredResponse valid None i uid mdl store
              = (Inl (BadRequest ''Selected model response does not exist''), store)
          \<and> selectPreferredResponse2 valid now i uid mdl store
              = (Inl (BadRequest ''Selected model response does not exist''), store))
       \<and> (\<not> no_response d mdl \<longrightarrow>
            (\<exists>d1 d2.
               selectPreferredResponse valid None i uid mdl store = (Inr d1, store(i \<mapsto> d1))
             \<and> selectPreferredResponse2 valid now i uid mdl store = (Inr d2, store(i \<mapsto> d2))
             \<and> dom (responses d1) = {mdl} \<and> responses d1 mdl = responses d mdl
             \<and> enabledModels (settings d1) = [mdl] \<and> overallStatus d1 = Completed
             \<and> totalModels d1 = 1 \<and> completedModels d1 = 1 \<and> failedModels d1 = 0
             \<and> dom (responses d2) = {mdl} \<and> responses d2 mdl = responses d mdl
             \<and> enabledModels (settings d2) = [mdl] \<and> overallStatus d2 = Completed
             \<and> selectedModel d2 = Some mdl))"
proof (cases "no_response d mdl")
  case True
  then show ?thesis
    using assms by (simp add: selectPreferredResponse_def selectPreferredResponse2_def)
next
  case False
  then have present: "responses d mdl \<noteq> None"
    by (auto simp: no_response_def split: option.splits)
  have dom: "dom (unset_others mdl (responses d)) = {mdl}"
    by (rule dom_unset_others [OF assms(4) present])
  have keep: "unset_others mdl (responses d) mdl = responses d mdl"
    by (simp add: unset_others_eq)
  show ?thesis
    using assms False dom keep
    by (simp add: selectPreferredResponse_def selectPreferredResponse2_def Let_def)
qed

theorem selectPreferred_by_response_text_witness:
  "accept_all ''gemini'' \<and> ''gemini'' \<noteq> []
   \<and> findOne store_answered 1 7 = Some (the (store_answered 1))
   \<and> dom (responses (the (store_answered 1))) \<subseteq> set models
   \<and> \<not> no_response (the (store_answered 1)) ''gemini''
   \<and> (\<exists>d1 d2.
         selectPreferredResponse accept_all None 1 7 ''gemini'' store_answered
           = (Inr d1, store_answered(1 \<mapsto> d1))
       \<and> selectPreferredResponse2 accept_all 200 1 7 ''gemini'' store_answered
           = (Inr d2, store_answered(1 \<mapsto> d2))
       \<and> dom (responses d1) = {''gemini''}
       \<and> responses d1 ''gemini'' = responses (the (store_answered 1)) ''gemini''
       \<and> enabledModels (settings d1) = [''gemini''] \<and> overallStatus d1 = Completed
       \<and> totalModels d1 = 1 \<and> completedModels d1 = 1 \<and> failedModels d1 = 0
       \<and> dom (responses d2) = {''gemini''}
       \<and> responses d2 ''gemini'' = responses (the (store_answered 1)) ''gemini''
       \<and> enabledModels (settings d2) = [''gemini''] \<and> overallStatus d2 = Completed
       \<and> selectedModel d2 = Some ''gemini'')
   \<and> findOne store_blank 1 7 = Some (the (store_blank 1))
   \<and> dom (responses (the (store_blank 1))) \<subseteq> set models
   \<and> no_response (the (store_blank 1)) ''gemini''
   \<and> selectPreferredResponse accept_all None 1 7 ''gemini'' store_blank
       = (Inl (BadRequest ''Selected model response does not exist''), store_blank)
   \<and> selectPreferredResponse2 accept_all 200 1 7 ''gemini'' store_blank
       = (Inl (BadRequest ''Selected model response does not exist''), store_blank)"
proof -
  have v1: "accept_all ''gemini''" and v2: "''gemini'' \<noteq> []"
    by (simp_all add: accept_all_def)
  have a1: "findOne store_answered 1 7 = Some (the (store_answered 1))"
    and a2: "dom (responses (the (store_answered 1))) \<subseteq> set models"
    and a3: "\<not> no_response (the (store_answered 1)) ''gemini''"
    by (simp_all add: eval_defs input_defs)
  have b1: "findOne store_blank 1 7 = Some (the (store_blank 1))"
    and b2: "dom (responses (the (store_blank 1))) \<subseteq> set models"
    and b3: "no_response (the (store_blank 1)) ''gemini''"
    by (simp_all add: eval_defs input_defs)
  note ha = selectPreferred_by_response_text [where valid = accept_all and mdl = "''gemini''"
        and store = store_answered and i = 1 and uid = 7 and d = "the (store_answered 1)"
        and now = 200, OF v1 v2 a1 a2]
  note hb = selectPreferred_by_response_text [where valid = accept_all and mdl = "''gemini''"
        and store = store_blank and i = 1 and uid = 7 and d = "the (store_blank 1)"
        and now = 200, OF v1 v2 b1 b2]
  note ok = ha [THEN conjunct2, THEN mp, OF a3]
  note no = hb [THEN conjunct1, THEN mp, OF b3]
  show ?thesis
    by (intro conjI) (rule v1 v2 a1 a2 a3 ok b1 b2 b3 no [THEN conjunct1] no [THEN conjunct2])+
qed

subsection \<open>Clearing the selection\<close>

text \<open>
  C8 as stated fails: a document created for \<open>gemini\<close> and \<open>openai\<close>, on which \<open>gemini\<close>
  was selected and then deleted, gets all five models as \<open>settings.enabledModels\<close> when the
  selection is cleared, not its original two; and the stored \<open>selectedModel\<close> is still
  \<open>gemini\<close>.
\<close>

theorem clear_restores_all_five:
  "stored_enabledModels store_two 1 = Some [''gemini'', ''openai'']
   \<and> map_option selectedModel (store_selected 1) = Some (Some ''gemini'')
   \<and> stored_enabledModels store_selected 1 = Some [''gemini'']
   \<and> map_option existing_models (store_emptied 1) = Some []
   \<and> stored_enabledModels store_cleared 1
       = Some [''gemini'', ''openai'', ''deepseek'', ''microsoft'', ''llama'']
   \<and> map_option selectedModel (store_cleared 1) = Some (Some ''gemini'')"
  by (simp add: eval_defs input_defs)

text \<open>
  C8 as amended: clearing the selection (the empty model name, second version) leaves the
  sub-documents as they are, none is brought back, and sets \<open>settings.enabledModels\<close> to the
  models that have a sub-document, in the order of the list of the five models, or to all
  five models when none has one. (What becomes of the stored \<open>selectedModel\<close> is no part of
  this.)
\<close>

theorem clearSelection_restores_present_or_all:
  assumes "valid []" and "findOne store i uid = Some d"
  shows "\<exists>d'. selectPreferredResponse2 valid now i uid [] store = (Inr d', store(i \<mapsto> d'))
           \<and> responses d' = responses d
           \<and> set (existing_models d) = dom (responses d) \<inter> set models
           \<and> enabledModels (settings d')
               = (if existing_models d \<noteq> [] then existing_models d
                  else [''gemini'', ''openai'', ''deepseek'', ''microsoft'', ''llama''])"
proof -
  have "set (existing_models d) = dom (responses d) \<inter> set models"
    by (auto simp: existing_models_def)
  then show ?thesis
    using assms
    by (simp add: selectPreferredResponse2_def Let_def save_def pre_save_frame pre_save_responses models_def)
qed

theorem clearSelection_restores_present_or_all_witness:
  "accept_all []
   \<and> findOne store_selected 1 7 = Some (the (store_selected 1))
   \<and> existing_models (the (store_selected 1)) = [''gemini'']
   \<and> (\<exists>d'. selectPreferredResponse2 accept_all 300 1 7 [] store_selected
              = (Inr d', store_selected(1 \<mapsto> d'))
          \<and> responses d' = responses (the (store_selected 1))
          \<and> set (existing_models (the (store_selected 1)))
              = dom (responses (the (store_selected 1))) \<inter> set models
          \<and> enabledModels (settings d')
              = (if existing_models (the (store_selected 1)) \<noteq> []
                 then existing_models (the (store_selected 1))
                 else [''gemini'', ''openai'', ''deepseek'', ''microsoft'', ''llama'']))
   \<and> findOne store_emptied 1 7 = Some (the (store_emptied 1))
   \<and> existing_models (the (store_emptied 1)) = []
   \<and> (\<exists>d'. selectPreferredResponse2 accept_all 300 1 7 [] store_emptied
              = (Inr d', store_emptied(1 \<mapsto> d'))
          \<and> responses d' = responses (the (store_emptied 1))
          \<and> set (existing_models (the (store_emptied 1)))
              = dom (responses (the (store_emptied 1))) \<inter> set models
          \<and> enabledModels (settings d')
              = (if existing_models (the (store_emptied 1)) \<noteq> []
                 then existing_models (the (store_emptied 1))
                 else [''gemini'', ''openai'', ''deepseek'', ''microsoft'', ''llama'']))"
proof -
  have v: "accept_all []" by (simp add: accept_all_def)
  have a1: "findOne store_selected 1 7 = Some (the (store_selected 1))"
    and a2: "existing_models (the (store_selected 1)) = [''gemini'']"
    by (simp_all add: eval_defs input_defs)
  have b1: "findOne store_emptied 1 7 = Some (the (store_emptied 1))"
    and b2: "existing_models (the (store_emptied 1)) = []"
    by (simp_all add: eval_defs input_defs)
  note ha = clearSelection_restores_present_or_all [where valid = accept_all and store = store_selected
      and i = 1 and uid = 7 and d = "the (store_selected 1)" and now = 300, OF v a1]
  note hb = clearSelection_restores_present_or_all [where valid = accept_all and store = store_emptied
      and i = 1 and uid = 7 and d = "the (store_emptied 1)" and now = 300, OF v b1]
  show ?thesis
    by (intro conjI) (rule v a1 a2 ha b1 b2 hb)+
qed

subsection \<open>Retrying failed responses\<close>

lemma retry_fold_map:
  "fold (\<lambda>(key, value) rs. if key \<in> F then rs(key \<mapsto> c value) else rs) (map (\<lambda>m. (m, g m)) ms) rs0 x
     = (if x \<in> set ms \<and> x \<in> F then Some (c (g x)) else rs0 x)"
  by (induction ms arbitrary: rs0) auto

lemma retry_fold_frame:
  "fold (\<lambda>(key, value) d. if key \<in> F then d\<lparr>responses := (responses d)(key \<mapsto> c value)\<rparr> else d) kvs d0
     = d0\<lparr>responses := fold (\<lambda>(key, value) rs. if key \<in> F then rs(key \<mapsto> c value) else rs) kvs (responses d0)\<rparr>"
  by (induction kvs arbitrary: d0) (auto split: prod.splits)

lemma retry_fold:
  "fold (\<lambda>(key, value) d. if key \<in> F then d\<lparr>responses := (responses d)(key \<mapsto> c value)\<rparr> else d)
      (map (\<lambda>m. (m, g m)) ms) d0
     = d0\<lparr>responses := (\<lambda>x. if x \<in> set ms \<and> x \<in> F then Some (c (g x)) else responses d0 x)\<rparr>"
  unfolding retry_fold_frame
  by (rule arg_cong [where f = "\<lambda>r. d0\<lparr>responses := r\<rparr>"]) (rule ext, rule retry_fold_map)

lemma set_failed_models:
  "set (failed_models d) = {m \<in> set models. \<exists>r. responses d m = Some r \<and> status r = Error}"
  by (auto simp: failed_models_def split: option.splits)

lemma retryFailedResponses_outcome:
  assumes "findOne store i uid = Some d"
  shows "set (failed_models d) = {m \<in> set models. \<exists>r. responses d m = Some r \<and> status r = Error}
       \<and> ((fst (retryFailedResponses svc envs now i uid store)
              = Inl (BadRequest ''No failed responses to retry'')) = (failed_models d = []))
       \<and> (failed_models d = [] \<longrightarrow> snd (retryFailedResponses svc envs now i uid store) = store)
       \<and> (failed_models d \<noteq> [] \<and> filter (provider_enabled svc) (failed_models d) = [] \<longrightarrow>
            retryFailedResponses svc envs now i uid store
              = (Inl (InternalServerError ''Failed to retry responses''
                        ''No AI models are configured and enabled''), store))
       \<and> (filter (provider_enabled svc) (failed_models d) \<noteq> [] \<longrightarrow>
            (\<exists>d'. retryFailedResponses svc envs now i uid store = (Inr d', store(i \<mapsto> d'))
                \<and> responses d' =
                    (\<lambda>m. if m \<in> set (failed_models d) \<and> provider_enabled svc m
                         then Some (cast_response now
                                (multi_call svc envs store (prompt d)
                                   ((settings d)\<lparr>enabledModels := failed_models d\<rparr>) m))
                         else responses d m)))"
proof -
  let ?F = "failed_models d"
  let ?A = "filter (provider_enabled svc) ?F"
  let ?sett = "(settings d)\<lparr>enabledModels := ?F\<rparr>"
  have gen: "generateMultiModelResponse svc envs store (prompt d) ?sett
               = (if ?A = [] then Inl ''No AI models are configured and enabled''
                  else Inr (map (\<lambda>m. (m, multi_call svc envs store (prompt d) ?sett m)) ?A))"
    by (simp add: generateMultiModelResponse_def Let_def)
  have c1: "?F = [] \<Longrightarrow> retryFailedResponses svc envs now i uid store
              = (Inl (BadRequest ''No failed responses to retry''), store)"
    using assms by (simp add: retryFailedResponses_def Let_def)
  have c2: "?F \<noteq> [] \<Longrightarrow> ?A = [] \<Longrightarrow> retryFailedResponses svc envs now i uid store
              = (Inl (InternalServerError ''Failed to retry responses''
                        ''No AI models are configured and enabled''), store)"
    using assms by (simp add: retryFailedResponses_def Let_def gen)
  have c3: "?A \<noteq> [] \<Longrightarrow> (\<exists>d'. retryFailedResponses svc envs now i uid store = (Inr d', store(i \<mapsto> d'))
                \<and> responses d' =
                    (\<lambda>m. if m \<in> set ?F \<and> provider_enabled svc m
                         then Some (cast_response now (multi_call svc envs store (prompt d) ?sett m))
                         else responses d m))"
  proof -
    assume a: "?A \<noteq> []"
    then have f: "?F \<noteq> []" by auto
    show ?thesis
      using assms a f
      by (simp add: retryFailedResponses_def Let_def gen retry_fold save_def pre_save_responses)
        (auto simp: fun_eq_iff)
  qed
  have iff: "(fst (retryFailedResponses svc envs now i uid store)
              = Inl (BadRequest ''No failed responses to retry'')) = (?F = [])"
  proof (cases "?F = []")
    case True
    then show ?thesis using c1 by simp
  next
    case False
    show ?thesis
    proof (cases "?A = []")
      case True
      then show ?thesis using c2 [OF False] False by simp
    next
      case False
      then show ?thesis using c3 [OF False] by auto
    qed
  qed
  show ?thesis
    using set_failed_models [of d] iff c1 c2 c3 by simp
qed

text \<open>
  C6 as stated fails: with two failed providers of which one is no longer enabled, the retry
  succeeds and overwrites one sub-document; the other stays as it was, in status \<open>error\<close>.
\<close>

theorem retry_skips_disabled_provider:
  "map_option failed_models (store_both_failed 1) = Some [''gemini'', ''openai'']
   \<and> map_option status (stored_response store_both_failed 1 ''gemini'') = Some Error
   \<and> stored_response store_retried 1 ''gemini'' = stored_response store_both_failed 1 ''gemini''
   \<and> map_option status (stored_response store_retried 1 ''openai'') = Some Success"
  by (simp add: eval_defs input_defs)

text \<open>
  C6 as amended: for a stored document of the user, the retry answers 400 \<open>No failed
  responses to retry\<close> exactly when none of the five sub-documents has status \<open>error\<close>, and
  then the store is unchanged. When there are failed providers and none of them is enabled
  it answers 500 and the store is unchanged. Otherwise the sub-documents of the failed
  providers that are enabled are replaced by the results of their new calls, and every other
  sub-document (pending, success, or failed and not enabled) is as before.
\<close>

theorem retryFailed_overwrites_enabled_failures:
  assumes "findOne store i uid = Some d"
  shows "set (failed_models d) = {m \<in> set models. \<exists>r. responses d m = Some r \<and> status r = Error}
       \<and> ((fst (retryFailedResponses svc envs now i uid store)
              = Inl (BadRequest ''No failed responses to retry'')) = (failed_models d = []))
       \<and> (failed_models d = [] \<longrightarrow> snd (retryFailedResponses svc envs now i uid store) = store)
       \<and> (failed_models d \<noteq> [] \<and> filter (provider_enabled svc) (failed_models d) = [] \<longrightarrow>
            retryFailedResponses svc envs now i uid store
              = (Inl (InternalServerError ''Failed to retry responses''
                        ''No AI models are configured and enabled''), store))
       \<and> (filter (provider_enabled svc) (failed_models d) \<noteq> [] \<longrightarrow>
            (\<exists>d'. retryFailedResponses svc envs now i uid store = (Inr d', store(i \<mapsto> d'))
                \<and> responses d' =
                    (\<lambda>m. if m \<in> set (failed_models d) \<and> provider_enabled svc m
                         then Some (cast_response now
                                (multi_call svc envs store (prompt d)
                                   ((settings d)\<lparr>enabledModels := failed_models d\<rparr>) m))
                         else responses d m)))"
  using assms by (rule retryFailedResponses_outcome)

theorem retryFailed_overwrites_enabled_failures_witness:
  "findOne store_both_failed 1 7 = Some (the (store_both_failed 1))
   \<and> failed_models (the (store_both_failed 1)) = [''gemini'', ''openai'']
   \<and> filter (provider_enabled (AIService env_openai_only)) (failed_models (the (store_both_failed 1)))
       \<noteq> []
   \<and> fst (retryFailedResponses (AIService env_openai_only) envs_answer42 300 1 7 store_both_failed)
        \<noteq> Inl (BadRequest ''No failed responses to retry'')
   \<and> (\<exists>d'. retryFailedResponses (AIService env_openai_only) envs_answer42 300 1 7 store_both_failed
              = (Inr d', store_both_failed(1 \<mapsto> d'))
          \<and> responses d' =
               (\<lambda>m. if m \<in> set (failed_models (the (store_both_failed 1)))
                        \<and> provider_enabled (AIService env_openai_only) m
                     then Some (cast_response 300
                            (multi_call (AIService env_openai_only) envs_answer42 store_both_failed
                               (prompt (the (store_both_failed 1)))
                               ((settings (the (store_both_failed 1)))
                                  \<lparr>enabledModels := failed_models (the (store_both_failed 1))\<rparr>) m))
                     else responses (the (store_both_failed 1)) m))"
proof -
  have a: "findOne store_both_failed 1 7 = Some (the (store_both_failed 1))"
    by (simp add: eval_defs input_defs)
  have f: "failed_models (the (store_both_failed 1)) = [''gemini'', ''openai'']"
    by (simp add: eval_defs input_defs)
  have e: "filter (provider_enabled (AIService env_openai_only)) (failed_models (the (store_both_failed 1))) \<noteq> []"
    unfolding f
    by (simp add: provider_enabled_def AIService_def env_openai_only_def mk_provider_def js_or_def truthy_def)
  have ne: "failed_models (the (store_both_failed 1)) \<noteq> []"
    unfolding f by simp
  note h = retryFailed_overwrites_enabled_failures [where store = store_both_failed and i = 1
      and uid = 7 and d = "the (store_both_failed 1)" and svc = "AIService env_openai_only"
      and envs = envs_answer42 and now = 300, OF a]
  note iff = h [THEN conjunct2, THEN conjunct1]
  note ex = h [THEN conjunct2, THEN conjunct2, THEN conjunct2, THEN conjunct2, THEN mp, OF e]
  have n: "fst (retryFailedResponses (AIService env_openai_only) envs_answer42 300 1 7 store_both_failed)
        \<noteq> Inl (BadRequest ''No failed responses to retry'')"
    using iff ne by simp
  show ?thesis
    by (intro conjI) (rule a f e n ex)+
qed

subsection \<open>Secondary effects\<close>

text \<open>
  C7 as stated fails: on the answered document the selection succeeds when the project update
  succeeds, and answers 500 when the project update throws.
\<close>

theorem project_failure_fails_selection:
  "fst (selectPreferredResponse accept_all None 1 7 ''gemini'' store_answered)
     = Inr (the (snd (selectPreferredResponse accept_all None 1 7 ''gemini'' store_answered) 1))
   \<and> fst (selectPreferredResponse accept_all (Some ''connection lost'') 1 7 ''gemini'' store_answered)
     = Inl (InternalServerError ''Failed to select preferred response'' ''connection lost'')"
  by (simp add: eval_defs input_defs)

text \<open>
  C7 as amended: when the look-up of the earlier turn throws, the call is the call that
  names no earlier turn (the failure is swallowed). The propagation to the project is not
  guarded: when it throws for a document that has a project, the selection has already
  been written to the store and the request answers 500 \<open>Failed to select preferred
  response\<close> with the message of the exception.
\<close>

theorem secondary_effects:
  "(lookup_throws env \<longrightarrow>
      callOpenRouter svc env store m am prmpt sett
        = callOpenRouter svc env store m am prmpt (sett\<lparr>previousResponseId := None\<rparr>)
      \<and> generateSingleModelResponse svc env store m prmpt sett
        = generateSingleModelResponse svc env store m prmpt (sett\<lparr>previousResponseId := None\<rparr>))
   \<and> (valid mdl \<and> findOne store i uid = Some d \<and> \<not> no_response d mdl \<and> projectId d \<noteq> None \<longrightarrow>
        (\<exists>d'. selectPreferredResponse valid None i uid mdl store = (Inr d', store(i \<mapsto> d'))
            \<and> selectPreferredResponse valid (Some msg) i uid mdl store
                = (Inl (InternalServerError ''Failed to select preferred response'' msg),
                   store(i \<mapsto> d'))))"
proof -
  have h1: "lookup_throws env \<Longrightarrow> history env store m sett = []"
    by (simp add: history_def split: option.splits)
  have h2: "history env store m (sett\<lparr>previousResponseId := None\<rparr>) = []"
    by (simp add: history_def)
  have c: "lookup_throws env \<Longrightarrow> callOpenRouter svc env store m am prmpt sett
        = callOpenRouter svc env store m am prmpt (sett\<lparr>previousResponseId := None\<rparr>)" for am
    by (simp add: callOpenRouter_def h1 h2 request_data_def Let_def split: option.splits)
  have g: "lookup_throws env \<Longrightarrow> generateSingleModelResponse svc env store m prmpt sett
        = generateSingleModelResponse svc env store m prmpt (sett\<lparr>previousResponseId := None\<rparr>)"
    by (simp add: generateSingleModelResponse_def c split: option.splits)
  have s: "valid mdl \<Longrightarrow> findOne store i uid = Some d \<Longrightarrow> \<not> no_response d mdl \<Longrightarrow> projectId d \<noteq> None \<Longrightarrow>
        (\<exists>d'. selectPreferredResponse valid None i uid mdl store = (Inr d', store(i \<mapsto> d'))
            \<and> selectPreferredResponse valid (Some msg) i uid mdl store
                = (Inl (InternalServerError ''Failed to select preferred response'' msg),
                   store(i \<mapsto> d')))"
    by (simp add: selectPreferredResponse_def Let_def)
  show ?thesis
    using c g s by blast
qed

theorem secondary_effects_witness:
  "lookup_throws env_lookup_throws
   \<and> callOpenRouter (AIService env_key) env_lookup_throws store_answered ''gemini''
        ''google/gemini-2.0-flash-exp:free'' ''And why?'' follow_up
       = callOpenRouter (AIService env_key) env_lookup_throws store_answered ''gemini''
        ''google/gemini-2.0-flash-exp:free'' ''And why?'' (follow_up\<lparr>previousResponseId := None\<rparr>)
   \<and> generateSingleModelResponse (AIService env_key) env_lookup_throws store_answered ''gemini''
        ''And why?'' follow_up
       = generateSingleModelResponse (AIService env_key) env_lookup_throws store_answered ''gemini''
        ''And why?'' (follow_up\<lparr>previousResponseId := None\<rparr>)
   \<and> accept_all ''gemini''
   \<and> findOne store_answered 1 7 = Some (the (store_answered 1))
   \<and> \<not> no_response (the (store_answered 1)) ''gemini''
   \<and> projectId (the (store_answered 1)) \<noteq> None
   \<and> (\<exists>d'. selectPreferredResponse accept_all None 1 7 ''gemini'' store_answered
              = (Inr d', store_answered(1 \<mapsto> d'))
          \<and> selectPreferredResponse accept_all (Some ''connection lost'') 1 7 ''gemini'' store_answered
              = (Inl (InternalServerError ''Failed to select preferred response'' ''connection lost''),
                 store_answered(1 \<mapsto> d')))"
proof -
  have t: "lookup_throws env_lookup_throws"
    by (simp add: env_lookup_throws_def)
  have v: "accept_all ''gemini''"
    by (simp add: accept_all_def)
  have a1: "findOne store_answered 1 7 = Some (the (store_answered 1))"
    and a2: "\<not> no_response (the (store_answered 1)) ''gemini''"
    and a3: "projectId (the (store_answered 1)) \<noteq> None"
    by (simp_all add: eval_defs input_defs)
  note h = secondary_effects [where env = env_lookup_throws and svc = "AIService env_key"
      and store = store_answered and m = "''gemini''" and am = "''google/gemini-2.0-flash-exp:free''"
      and prmpt = "''And why?''" and sett = follow_up and valid = accept_all and mdl = "''gemini''"
      and i = 1 and uid = 7 and d = "the (store_answered 1)" and msg = "''connection lost''"]
  note c = h [THEN conjunct1, THEN mp, OF t]
  have pre: "accept_all ''gemini'' \<and> findOne store_answered 1 7 = Some (the (store_answered 1))
      \<and> \<not> no_response (the (store_answered 1)) ''gemini'' \<and> projectId (the (store_answered 1)) \<noteq> None"
    by (intro conjI) (rule v a1 a2 a3)+
  note s = h [THEN conjunct2, THEN mp, OF pre]
  show ?thesis
    by (intro conjI) (rule t c [THEN conjunct1] c [THEN conjunct2] v a1 a2 a3 s)+
qed

subsection \<open>The invariant of the provider results\<close>

lemma invariant_cast:
  "provider_result_invariant (cast_response now r) =
     ((r_status r = Error \<longrightarrow> \<not> truthy (r_response r) \<and> truthy (r_errorMessage r))
      \<and> (r_status r = Success \<longrightarrow> r_errorMessage r = None))"
  by (simp add: provider_result_invariant_def cast_response_def)

lemma invariant_error_result:
  "provider_result_invariant (cast_response now (error_result env m e))"
  by (simp add: invariant_cast error_result_def truthy_def)

lemma invariant_callOpenRouter:
  "provider_result_invariant (cast_response now (callOpenRouter svc env store m am prmpt sett))"
  by (simp add: callOpenRouter_def Let_def invariant_error_result
      split: option.splits upstream_outcome.splits)
     (simp add: invariant_cast generateMockResponse_def)

lemma invariant_multi_call:
  "provider_result_invariant (cast_response now (multi_call svc envs store prmpt sett m))"
  by (simp add: multi_call_def invariant_callOpenRouter split: option.splits)
     (simp add: invariant_cast truthy_def type_error_message_def)

lemma invariant_completion_patch:
  "provider_result_invariant
     (cast_response now' (u_value (completion_patch now m (generateSingleModelResponse svc env store m prmpt sett))))"
proof (cases "generateSingleModelResponse svc env store m prmpt sett")
  case (Inl msg)
  then show ?thesis
    by (simp add: completion_patch_def invariant_cast truthy_def)
next
  case (Inr result)
  then have "\<exists>am. result = callOpenRouter svc env store m am prmpt sett"
    by (auto simp: generateSingleModelResponse_def split: option.splits if_splits)
  then have "provider_result_invariant (cast_response now' result)"
    by (auto simp: invariant_callOpenRouter)
  then show ?thesis
    using Inr by (simp add: completion_patch_def invariant_cast)
qed

lemma invariant_pending: "provider_result_invariant (pending_response now m)"
  by (simp add: pending_response_def invariant_cast)

lemma findOne_stored: "findOne store i uid = Some d \<Longrightarrow> store i = Some d"
  by (auto simp: findOne_def split: option.splits if_splits)

lemma unset_others_Some:
  "unset_others mdl rs m = Some r \<Longrightarrow> rs m = Some r"
  by (simp add: unset_others_eq split: if_splits)

lemma written_results_valid_refl: "written_results_valid store store"
  by (simp add: written_results_valid_def)

lemma written_results_valid_trans:
  "written_results_valid a b \<Longrightarrow> written_results_valid b c \<Longrightarrow> written_results_valid a c"
  unfolding written_results_valid_def by blast

lemma written_results_valid_upd:
  assumes "store i = Some d"
    and "\<And>m r. responses d' m = Some r \<Longrightarrow> responses d m = Some r \<or> provider_result_invariant r"
  shows "written_results_valid store (store(i \<mapsto> d'))"
  using assms by (auto simp: written_results_valid_def)

lemma written_results_valid_new:
  assumes "\<And>m r. responses d' m = Some r \<Longrightarrow> provider_result_invariant r"
  shows "written_results_valid store (store(i \<mapsto> d'))"
  using assms by (auto simp: written_results_valid_def)

lemma written_generateAIResponse:
  "written_results_valid store (snd (generateAIResponse svc now new_id new_project q store))"
proof (cases "generateAIResponseValidation q \<and> models_to_use svc q \<noteq> []")
  case True
  then obtain d where d: "generateAIResponse svc now new_id new_project q store
              = (Inr (d, models_to_use svc q), store(new_id \<mapsto> d))"
      "responses d = (\<lambda>m. if m \<in> set (models_to_use svc q)
                            then Some (pending_response now m) else None)"
    using generateAIResponse_pending [of q svc now new_id new_project store] by blast
  have "\<And>m r. responses d m = Some r \<Longrightarrow> provider_result_invariant r"
    by (auto simp: d(2) invariant_pending split: if_splits)
  then show ?thesis
    by (simp add: d(1) written_results_valid_new)
next
  case False
  then show ?thesis
    by (auto simp: generateAIResponse_def Let_def written_results_valid_refl)
qed

lemma written_complete_one:
  "written_results_valid store (complete_one svc env i prmpt sett m store)"
proof (cases "store i")
  case None
  then show ?thesis
    by (simp add: complete_one_def findByIdAndUpdate_def written_results_valid_refl)
next
  case (Some d)
  let ?p = "completion_patch (t_end env) m (generateSingleModelResponse svc env store m prmpt sett)"
  let ?d' = "d\<lparr>responses := (responses d)(u_model ?p \<mapsto> cast_response (t_end env) (u_value ?p))\<rparr>"
  have "\<And>x r. responses ?d' x = Some r \<Longrightarrow> responses d x = Some r \<or> provider_result_invariant r"
    using invariant_completion_patch [of "t_end env" "t_end env" m svc env store prmpt sett]
    by (auto split: if_splits)
  then have "written_results_valid store (store(i \<mapsto> ?d'))"
    by (rule written_results_valid_upd [where store = store and i = i, OF Some])
  then show ?thesis
    using Some by (simp add: complete_one_def findByIdAndUpdate_def)
qed

lemma written_generateIndependentResponses:
  "written_results_valid store (generateIndependentResponses svc envs i prmpt sett order store)"
  unfolding generateIndependentResponses_def
proof (induction order arbitrary: store)
  case Nil
  show ?case by (simp add: written_results_valid_refl)
next
  case (Cons a order)
  show ?case
    using written_complete_one [of store svc "envs a" i prmpt sett a]
      Cons.IH [of "complete_one svc (envs a) i prmpt sett a store"]
    by (simp add: written_results_valid_trans)
qed

lemma written_retryFailedResponses:
  "written_results_valid store (snd (retryFailedResponses svc envs now i uid store))"
proof (cases "findOne store i uid")
  case None
  then show ?thesis
    by (simp add: retryFailedResponses_def written_results_valid_refl)
next
  case (Some d)
  note st = findOne_stored [OF Some]
  note h = retryFailedResponses_outcome [OF Some, of svc envs now]
  show ?thesis
  proof (cases "filter (provider_enabled svc) (failed_models d) = []")
    case True
    then show ?thesis
      using h by (cases "failed_models d = []") (auto simp: written_results_valid_refl)
  next
    case False
    then obtain d' where d': "retryFailedResponses svc envs now i uid store = (Inr d', store(i \<mapsto> d'))"
      "responses d' = (\<lambda>m. if m \<in> set (failed_models d) \<and> provider_enabled svc m
                         then Some (cast_response now
                                (multi_call svc envs store (prompt d)
                                   ((settings d)\<lparr>enabledModels := failed_models d\<rparr>) m))
                         else responses d m)"
      using h by blast
    have "\<And>m r. responses d' m = Some r \<Longrightarrow> responses d m = Some r \<or> provider_result_invariant r"
      by (auto simp: d'(2) invariant_multi_call split: if_splits)
    then have "written_results_valid store (store(i \<mapsto> d'))"
      by (rule written_results_valid_upd [where store = store and i = i, OF st])
    then show ?thesis
      by (simp add: d'(1))
  qed
qed

lemma written_selectPreferredResponse:
  "written_results_valid store (snd (selectPreferredResponse valid project_error i uid mdl store))"
proof (cases "findOne store i uid")
  case None
  then show ?thesis
    by (simp add: selectPreferredResponse_def written_results_valid_refl)
next
  case (Some d)
  note st = findOne_stored [OF Some]
  let ?d' = "d\<lparr>responses := unset_others mdl (responses d),
               settings := (settings d)\<lparr>enabledModels := [mdl]\<rparr>,
               totalModels := 1, completedModels := 1, failedModels := 0,
               overallStatus := Completed, updatedBy := Some uid\<rparr>"
  have "\<And>m r. responses ?d' m = Some r \<Longrightarrow> responses d m = Some r \<or> provider_result_invariant r"
    by (auto dest: unset_others_Some)
  then have "written_results_valid store (store(i \<mapsto> ?d'))"
    by (rule written_results_valid_upd [where store = store and i = i, OF st])
  then show ?thesis
    using Some
    by (simp add: selectPreferredResponse_def Let_def written_results_valid_refl split: option.splits)
qed

lemma written_selectPreferredResponse2:
  "written_results_valid store (snd (selectPreferredResponse2 valid now i uid mdl store))"
proof (cases "findOne store i uid")
  case None
  then show ?thesis
    by (simp add: selectPreferredResponse2_def written_results_valid_refl)
next
  case (Some d)
  note st = findOne_stored [OF Some]
  let ?d' = "d\<lparr>selectedModel := Some mdl, overallStatus := Completed, updatedBy := Some uid,
               settings := (settings d)\<lparr>enabledModels := [mdl]\<rparr>,
               responses := unset_others mdl (responses d)\<rparr>"
  let ?c = "pre_save now
              (d\<lparr>updatedBy := Some uid,
                 settings := (settings d)
                   \<lparr>enabledModels := (if length (existing_models d) > 0 then existing_models d
                                       else models)\<rparr>\<rparr>)"
  have "\<And>m r. responses ?d' m = Some r \<Longrightarrow> responses d m = Some r \<or> provider_result_invariant r"
    by (auto dest: unset_others_Some)
  then have 1: "written_results_valid store (store(i \<mapsto> ?d'))"
    by (rule written_results_valid_upd [where store = store and i = i, OF st])
  have "\<And>m r. responses ?c m = Some r \<Longrightarrow> responses d m = Some r \<or> provider_result_invariant r"
    by (simp add: pre_save_responses)
  then have 2: "written_results_valid store (store(i \<mapsto> ?c))"
    by (rule written_results_valid_upd [where store = store and i = i, OF st])
  show ?thesis
    using Some 1 2
    by (simp add: selectPreferredResponse2_def Let_def save_def written_results_valid_refl)
qed

lemma written_deleteSingleModelResponse:
  "written_results_valid store (snd (deleteSingleModelResponse now i uid mdl store))"
proof (cases "findOne store i uid")
  case None
  then show ?thesis
    by (simp add: deleteSingleModelResponse_def written_results_valid_refl)
next
  case (Some d)
  note st = findOne_stored [OF Some]
  let ?d' = "pre_save now (d\<lparr>responses := (responses d)(mdl := None), updatedBy := Some uid\<rparr>)"
  have "\<And>m r. responses ?d' m = Some r \<Longrightarrow> responses d m = Some r \<or> provider_result_invariant r"
    by (auto simp: pre_save_responses split: if_splits)
  then have "written_results_valid store (store(i \<mapsto> ?d'))"
    by (rule written_results_valid_upd [where store = store and i = i, OF st])
  then show ?thesis
    using Some
    by (simp add: deleteSingleModelResponse_def Let_def save_def written_results_valid_refl)
qed

text \<open>
  A store in which every sub-document satisfies the invariant is therefore taken to such a
  store again.
\<close>

lemma store_invariant_kept:
  assumes "store_invariant store" and "written_results_valid store store'"
  shows "store_invariant store'"
  unfolding store_invariant_def
proof (intro allI impI)
  fix i d m r
  assume "store' i = Some d" and "responses d m = Some r"
  then have "(case store' i of None \<Rightarrow> None | Some d \<Rightarrow> responses d m) = Some r"
    by simp
  then have "(case store i of None \<Rightarrow> None | Some d \<Rightarrow> responses d m) = Some r
             \<or> provider_result_invariant r"
    using assms(2) unfolding written_results_valid_def by blast
  then show "provider_result_invariant r"
    using assms(1) unfolding store_invariant_def by (auto split: option.splits)
qed

text \<open>
  C9 as stated fails: the edit of the text of a failed response leaves a sub-document with
  status \<open>error\<close> and a non-empty text, and the manual update that marks an answered
  response as failed leaves one with status \<open>error\<close>, a text and no error message.
\<close>

theorem edit_breaks_invariant:
  "map_option status (stored_response store_edited 1 ''gemini'') = Some Error
   \<and> map_option response (stored_response store_edited 1 ''gemini'') = Some (Some ''fixed by hand'')
   \<and> \<not> provider_result_invariant (the (stored_response store_edited 1 ''gemini''))
   \<and> map_option status (stored_response store_marked 1 ''gemini'') = Some Error
   \<and> map_option response (stored_response store_marked 1 ''gemini'') = Some (Some ''hello'')
   \<and> map_option errorMessage (stored_response store_marked 1 ''gemini'') = Some None
   \<and> \<not> provider_result_invariant (the (stored_response store_marked 1 ''gemini''))"
  by (simp add: eval_defs input_defs provider_result_invariant_def)

text \<open>
  C9 as amended: on whatever store they run, the operations of the subsystem other than the
  manual updates write valid results only. The pending placeholder, the result or error
  that a background task patches in, and the result of a retried call satisfy the
  invariant. Every sub-document that is in the store after a
  submission, after the patch of a background task (result or error of the call), after any
  sequence of such patches, or after the retry of the failed responses, and that was not in
  the store unchanged before, satisfies the invariant: status \<open>error\<close> implies an empty text
  and a set error message, status \<open>success\<close> implies no error message. The selection in both
  versions, the clearing of the selection and the deletion of a response write no
  sub-document that was not there. (The manual updates are not in the list.)
\<close>

theorem written_results_satisfy_invariant:
  "provider_result_invariant (pending_response now m)
   \<and> provider_result_invariant
        (cast_response now'
           (u_value (completion_patch now m (generateSingleModelResponse svc env store m prmpt sett))))
   \<and> provider_result_invariant (cast_response now (multi_call svc envs store prmpt sett m))
   \<and> written_results_valid store (snd (generateAIResponse svc now new_id new_project q store))
   \<and> written_results_valid store (complete_one svc env i prmpt sett m store)
   \<and> written_results_valid store (generateIndependentResponses svc envs i prmpt sett order store)
   \<and> written_results_valid store (snd (retryFailedResponses svc envs now i uid store))
   \<and> written_results_valid store (snd (selectPreferredResponse valid project_error i uid mdl store))
   \<and> written_results_valid store (snd (selectPreferredResponse2 valid now i uid mdl store))
   \<and> written_results_valid store (snd (deleteSingleModelResponse now i uid mdl store))"
  by (intro conjI invariant_pending invariant_completion_patch invariant_multi_call
      written_generateAIResponse written_complete_one
      written_generateIndependentResponses written_retryFailedResponses
      written_selectPreferredResponse written_selectPreferredResponse2
      written_deleteSingleModelResponse)

theorem written_results_satisfy_invariant_witness:
  "\<not> provider_result_invariant (the (stored_response store_edited 1 ''gemini''))
   \<and> stored_response store_fixed 1 ''gemini'' = Some (the (stored_response store_fixed 1 ''gemini''))
   \<and> stored_response store_edited 1 ''gemini'' \<noteq> Some (the (stored_response store_fixed 1 ''gemini''))
   \<and> provider_result_invariant (the (stored_response store_fixed 1 ''gemini''))"
proof -
  have a1: "\<not> provider_result_invariant (the (stored_response store_edited 1 ''gemini''))"
    by (simp add: eval_defs input_defs provider_result_invariant_def)
  have a2: "stored_response store_fixed 1 ''gemini'' = Some (the (stored_response store_fixed 1 ''gemini''))"
    by (simp add: eval_defs input_defs)
  have e1: "map_option status (stored_response store_edited 1 ''gemini'') = Some Error"
    and e2: "map_option status (stored_response store_fixed 1 ''gemini'') = Some Success"
    by (simp_all add: eval_defs input_defs)
  have a3: "stored_response store_edited 1 ''gemini'' \<noteq> Some (the (stored_response store_fixed 1 ''gemini''))"
    using e1 e2 by (cases "stored_response store_fixed 1 ''gemini''") auto
  have h: "written_results_valid store_edited store_fixed"
    unfolding store_fixed_def
    by (rule written_results_satisfy_invariant [where store = store_edited
          and svc = "AIService env_key" and envs = envs_answer42 and now = 300 and i = 1 and uid = 7,
          THEN conjunct2, THEN conjunct2, THEN conjunct2, THEN conjunct2, THEN conjunct2,
          THEN conjunct2, THEN conjunct1])
  have "stored_response store_fixed 1 ''gemini'' = Some (the (stored_response store_fixed 1 ''gemini''))
        \<longrightarrow> stored_response store_edited 1 ''gemini'' = Some (the (stored_response store_fixed 1 ''gemini''))
            \<or> provider_result_invariant (the (stored_response store_fixed 1 ''gemini''))"
    using h unfolding written_results_valid_def stored_response_def by blast
  then have a4: "provider_result_invariant (the (stored_response store_fixed 1 ''gemini''))"
    using a2 a3 by blast
  show ?thesis
    by (intro conjI) (rule a1 a2 a3 a4)+
qed

end
